theory Spec2Isabelle
  imports Main
begin

section \<open>Python values used by hw_final.py\<close>

text \<open>
  A Python \<open>str\<close> is a sequence of code points. It is modelled as a \<open>string\<close>; a \<open>char\<close>
  stands for the code point with the same number, so the model covers the strings whose
  code points are below 256 (ASCII and the Latin-1 supplement).
\<close>

datatype exn = ValueError | KeyError | IndexError | OverflowError

text \<open>
  \<open>str.isdigit\<close> and \<open>str.isalpha\<close>: true when the string is not empty and every
  character has the property. Below 256 the digit characters are \<open>0\<close>..\<open>9\<close>
  and the superscripts U+00B2, U+00B3 and U+00B9; the alphabetic characters are the ASCII
  letters, U+00AA, U+00B5, U+00BA and U+00C0..U+00FF without U+00D7 and U+00F7.
\<close>

definition char_isdigit :: "char \<Rightarrow> bool" where
  "char_isdigit c =
     (let n = (of_char c :: nat)
      in (48 \<le> n \<and> n \<le> 57) \<or> n = 178 \<or> n = 179 \<or> n = 185)"

definition char_isalpha :: "char \<Rightarrow> bool" where
  "char_isalpha c =
     (let n = (of_char c :: nat)
      in (65 \<le> n \<and> n \<le> 90) \<or> (97 \<le> n \<and> n \<le> 122)
         \<or> n = 170 \<or> n = 181 \<or> n = 186
         \<or> (192 \<le> n \<and> n \<le> 255 \<and> n \<noteq> 215 \<and> n \<noteq> 247))"

definition isdigit :: "string \<Rightarrow> bool" where
  "isdigit s = (s \<noteq> [] \<and> list_all char_isdigit s)"

definition isalpha :: "string \<Rightarrow> bool" where
  "isalpha s = (s \<noteq> [] \<and> list_all char_isalpha s)"

section \<open>Fields\<close>

text \<open>
  \<open>Field\<close> holds one attribute, \<open>value\<close> (here \<open>fvalue\<close>); \<open>__str__\<close> renders it.
  The constructors of the subclasses validate and raise \<open>ValueError\<close>.
\<close>

record Field =
  fvalue :: string

definition str_Field :: "Field \<Rightarrow> string" where
  "str_Field f = fvalue f"

definition Name :: "string \<Rightarrow> exn + Field" where
  "Name v =
     (if \<not> isalpha v \<or> length v < 2 then Inl ValueError
      else Inr \<lparr>fvalue = v\<rparr>)"

definition Phone :: "string \<Rightarrow> exn + Field" where
  "Phone v =
     (if \<not> isdigit v \<or> length v \<noteq> 10 then Inl ValueError
      else Inr \<lparr>fvalue = v\<rparr>)"

section \<open>Record\<close>

record Contact_Record =
  name :: Field
  phones :: "Field list"
  birthday :: "Field option"

definition Record :: "string \<Rightarrow> exn + Contact_Record" where
  "Record n =
     (case Name n of
        Inl e \<Rightarrow> Inl e
      | Inr nm \<Rightarrow> Inr \<lparr>name = nm, phones = [], birthday = None\<rparr>)"

definition add_phone :: "string \<Rightarrow> Contact_Record \<Rightarrow> exn + Contact_Record" where
  "add_phone phone r =
     (case Phone phone of
        Inl e \<Rightarrow> Inl e
      | Inr p \<Rightarrow> Inr (r\<lparr>phones := phones r @ [p]\<rparr>))"

text \<open>
  \<open>edit_phone\<close>: the loop visits every entry of \<open>self.phones\<close> and assigns
  \<open>p.value = new_phone\<close> where \<open>p.value == old_phone\<close>. There is no \<open>break\<close>, no
  call of \<open>Phone\<close>, and no statement that can raise.
\<close>

primrec edit_phone_loop :: "string \<Rightarrow> string \<Rightarrow> Field list \<Rightarrow> Field list" where
  "edit_phone_loop old_phone new_phone [] = []"
| "edit_phone_loop old_phone new_phone (p # ps) =
     (if fvalue p = old_phone then p\<lparr>fvalue := new_phone\<rparr> else p)
       # edit_phone_loop old_phone new_phone ps"

definition edit_phone :: "string \<Rightarrow> string \<Rightarrow> Contact_Record \<Rightarrow> Contact_Record" where
  "edit_phone old_phone new_phone r =
     r\<lparr>phones := edit_phone_loop old_phone new_phone (phones r)\<rparr>"

section \<open>datetime: dates and \<open>strptime(value, '%d.%m.%Y')\<close>\<close>

text \<open>
  A \<open>datetime.date\<close> is represented by its proleptic Gregorian ordinal
  (\<open>date.toordinal()\<close>, day 1 is 0001-01-01). The ordinal of a year, month and day is
  computed as the library does; subtraction of dates gives a number of days, adding a
  \<open>timedelta\<close> of whole days raises \<open>OverflowError\<close> outside 0001-01-01..9999-12-31.
\<close>

type_synonym date = int

definition is_leap :: "int \<Rightarrow> bool" where
  "is_leap year = (year mod 4 = 0 \<and> (year mod 100 \<noteq> 0 \<or> year mod 400 = 0))"

definition days_before_year :: "int \<Rightarrow> int" where
  "days_before_year year =
     (let y = year - 1 in y * 365 + y div 4 - y div 100 + y div 400)"

definition days_in_month :: "int \<Rightarrow> int \<Rightarrow> int" where
  "days_in_month year month =
     (if month = 2 then (if is_leap year then 29 else 28)
      else if month = 4 \<or> month = 6 \<or> month = 9 \<or> month = 11 then 30
      else 31)"

definition days_before_month :: "int \<Rightarrow> int \<Rightarrow> int" where
  "days_before_month year month =
     (if month = 1 then 0 else if month = 2 then 31 else if month = 3 then 59
      else if month = 4 then 90 else if month = 5 then 120 else if month = 6 then 151
      else if month = 7 then 181 else if month = 8 then 212 else if month = 9 then 243
      else if month = 10 then 273 else if month = 11 then 304 else 334)
     + (if month > 2 \<and> is_leap year then 1 else 0)"

definition ymd2ord :: "int \<Rightarrow> int \<Rightarrow> int \<Rightarrow> int" where
  "ymd2ord year month day = days_before_year year + days_before_month year month + day"

definition MAXORDINAL :: int where
  "MAXORDINAL = 3652059"

definition mk_date :: "int \<Rightarrow> int \<Rightarrow> int \<Rightarrow> exn + date" where
  "mk_date year month day =
     (if \<not> (1 \<le> year \<and> year \<le> 9999) then Inl ValueError
      else if \<not> (1 \<le> month \<and> month \<le> 12) then Inl ValueError
      else if \<not> (1 \<le> day \<and> day \<le> days_in_month year month) then Inl ValueError
      else Inr (ymd2ord year month day))"

definition date_sub_days :: "date \<Rightarrow> date \<Rightarrow> int" where
  "date_sub_days a b = a - b"

definition date_add_days :: "date \<Rightarrow> int \<Rightarrow> exn + date" where
  "date_add_days d n =
     (let ordinal = d + n
      in if 0 < ordinal \<and> ordinal \<le> MAXORDINAL then Inr ordinal else Inl OverflowError)"

definition weekday :: "date \<Rightarrow> int" where
  "weekday d = (d + 6) mod 7"

definition strftime_A :: "date \<Rightarrow> string" where
  "strftime_A d =
     [''Monday'', ''Tuesday'', ''Wednesday'', ''Thursday'', ''Friday'', ''Saturday'',
      ''Sunday''] ! nat (weekday d)"

text \<open>
  \<open>strptime\<close> compiles the format to the regular expression
  \<^verbatim>\<open>(?P<d>3[0-1]|[1-2]\d|0[1-9]|[1-9]| [1-9])\.(?P<m>1[0-2]|0[1-9]|[1-9])\.(?P<Y>\d\d\d\d)\<close>,
  matches it at the start of the string, and raises \<open>ValueError\<close> when there is no
  match, when the match does not reach the end of the string, or when the numbers are
  not a date. \<open>rmatch\<close> gives the rests of the string after each way of matching, in
  the order a backtracking matcher tries them; the first one is the match.
\<close>

datatype regex = Cls string | Seq regex regex | Alt regex regex

fun rmatch :: "regex \<Rightarrow> string \<Rightarrow> string list" where
  "rmatch (Cls cs) s = (case s of [] \<Rightarrow> [] | c # rest \<Rightarrow> if c \<in> set cs then [rest] else [])"
| "rmatch (Seq p q) s = concat (map (rmatch q) (rmatch p s))"
| "rmatch (Alt p q) s = rmatch p s @ rmatch q s"

definition group_match :: "regex \<Rightarrow> string \<Rightarrow> (string \<times> string) list" where
  "group_match p s = map (\<lambda>rest. (take (length s - length rest) s, rest)) (rmatch p s)"

text \<open>
  \<open>re_digit\<close> is \<^verbatim>\<open>\d\<close>. On a \<open>str\<close> it matches every Unicode decimal digit; of the
  modelled characters (code points below 256) those are \<open>0\<close>..\<open>9\<close> only.
\<close>

definition re_digit :: regex where
  "re_digit = Cls ''0123456789''"

definition re_d :: regex where
  "re_d = Alt (Seq (Cls ''3'') (Cls ''01''))
         (Alt (Seq (Cls ''12'') re_digit)
         (Alt (Seq (Cls ''0'') (Cls ''123456789''))
         (Alt (Cls ''123456789'')
              (Seq (Cls '' '') (Cls ''123456789'')))))"

definition re_m :: regex where
  "re_m = Alt (Seq (Cls ''1'') (Cls ''012''))
         (Alt (Seq (Cls ''0'') (Cls ''123456789''))
              (Cls ''123456789''))"

definition re_Y :: regex where
  "re_Y = Seq re_digit (Seq re_digit (Seq re_digit re_digit))"

definition format_match :: "string \<Rightarrow> (string \<times> string \<times> string \<times> string) list" where
  "format_match s =
     [(d, m, y, r5).
        (d, r1) \<leftarrow> group_match re_d s, r2 \<leftarrow> rmatch (Cls ''.'') r1,
        (m, r3) \<leftarrow> group_match re_m r2, r4 \<leftarrow> rmatch (Cls ''.'') r3,
        (y, r5) \<leftarrow> group_match re_Y r4]"

text \<open>
  \<open>int(text)\<close> on the text of a group: leading blanks are skipped, the rest is read as
  decimal digits (the groups hold nothing else).
\<close>

definition py_int :: "string \<Rightarrow> int" where
  "py_int s =
     foldl (\<lambda>acc c. 10 * acc + (int (of_char c) - 48)) 0 (dropWhile (\<lambda>c. c = CHR '' '') s)"

definition strptime :: "string \<Rightarrow> exn + date" where
  "strptime s =
     (case format_match s of
        [] \<Rightarrow> Inl ValueError
      | (d, m, y, rest) # _ \<Rightarrow>
          if rest \<noteq> [] then Inl ValueError
          else mk_date (py_int y) (py_int m) (py_int d))"

definition Birthday :: "string \<Rightarrow> exn + Field" where
  "Birthday v =
     (case strptime v of
        Inl ValueError \<Rightarrow> Inl ValueError
      | Inl e \<Rightarrow> Inl e
      | Inr _ \<Rightarrow> Inr \<lparr>fvalue = v\<rparr>)"

definition add_birthday :: "string \<Rightarrow> Contact_Record \<Rightarrow> exn + Contact_Record" where
  "add_birthday b r =
     (case Birthday b of
        Inl e \<Rightarrow> Inl e
      | Inr f \<Rightarrow> Inr (r\<lparr>birthday := Some f\<rparr>))"

fun join :: "string \<Rightarrow> string list \<Rightarrow> string" where
  "join sep [] = []"
| "join sep [x] = x"
| "join sep (x # y # ys) = x @ sep @ join sep (y # ys)"

definition str_Record :: "Contact_Record \<Rightarrow> string" where
  "str_Record r =
     (let phone_str = join ''; '' (map str_Field (phones r));
          birthday_str = (case birthday r of Some b \<Rightarrow> str_Field b | None \<Rightarrow> ''Not specified'')
      in ''Contact name: '' @ fvalue (name r) @ '', phones: '' @ phone_str
         @ '', birthday: '' @ birthday_str)"

section \<open>AddressBook\<close>

text \<open>
  A Python \<open>dict\<close> keeps its keys in insertion order: assigning to a key that is present
  replaces the value in place, assigning to a new key appends. It is an association list
  here; \<open>AddressBook\<close> is a \<open>UserDict\<close>, whose state is the dict \<open>self.data\<close>.
\<close>

type_synonym ('k, 'v) dict = "('k \<times> 'v) list"

fun dict_setitem :: "'k \<Rightarrow> 'v \<Rightarrow> ('k, 'v) dict \<Rightarrow> ('k, 'v) dict" where
  "dict_setitem k v [] = [(k, v)]"
| "dict_setitem k v ((k', v') # d) =
     (if k' = k then (k', v) # d else (k', v') # dict_setitem k v d)"

fun dict_delitem :: "'k \<Rightarrow> ('k, 'v) dict \<Rightarrow> ('k, 'v) dict" where
  "dict_delitem k [] = []"
| "dict_delitem k ((k', v') # d) = (if k' = k then d else (k', v') # dict_delitem k d)"

definition dict_contains :: "'k \<Rightarrow> ('k, 'v) dict \<Rightarrow> bool" where
  "dict_contains k d = (k \<in> set (map fst d))"

definition dict_values :: "('k, 'v) dict \<Rightarrow> 'v list" where
  "dict_values d = map snd d"

type_synonym AddressBook = "(string, Contact_Record) dict"

definition add_record :: "Contact_Record \<Rightarrow> AddressBook \<Rightarrow> AddressBook" where
  "add_record record book = dict_setitem (fvalue (name record)) record book"

definition find :: "string \<Rightarrow> AddressBook \<Rightarrow> Contact_Record option" where
  "find n book = map_of book n"

definition delete :: "string \<Rightarrow> AddressBook \<Rightarrow> AddressBook" where
  "delete n book = (if dict_contains n book then dict_delitem n book else book)"

text \<open>
  \<open>birthdays_per_week[key].append(n)\<close>: \<open>KeyError\<close> when the key is missing.
\<close>

definition bucket_append ::
  "string \<Rightarrow> string \<Rightarrow> (string, string list) dict \<Rightarrow> exn + (string, string list) dict" where
  "bucket_append key n bpw =
     (case map_of bpw key of
        None \<Rightarrow> Inl KeyError
      | Some names \<Rightarrow> Inr (dict_setitem key (names @ [n]) bpw))"

text \<open>
  The loop of \<open>get_birthdays_per_week\<close> over \<open>self.data.values()\<close>; \<open>today\<close> is the value
  of \<open>datetime.now().date()\<close>. A \<open>Birthday\<close> object is always true in \<open>if record.birthday\<close>.
\<close>

fun birthdays_loop ::
  "date \<Rightarrow> Contact_Record list \<Rightarrow> (string, string list) dict
     \<Rightarrow> exn + (string, string list) dict" where
  "birthdays_loop today [] bpw = Inr bpw"
| "birthdays_loop today (record # rest) bpw =
     (case birthday record of
        None \<Rightarrow> birthdays_loop today rest bpw
      | Some b \<Rightarrow>
          (case strptime (fvalue b) of
             Inl e \<Rightarrow> Inl e
           | Inr birthday_date \<Rightarrow>
               (let delta_days = date_sub_days birthday_date today
                in if 0 \<le> delta_days \<and> delta_days < 7 then
                     (case date_add_days today delta_days of
                        Inl e \<Rightarrow> Inl e
                      | Inr d \<Rightarrow>
                          (let day_of_week = strftime_A d
                           in case (if day_of_week \<in> set [''Saturday'', ''Sunday'']
                                    then bucket_append ''Next Monday'' (fvalue (name record)) bpw
                                    else bucket_append day_of_week (fvalue (name record)) bpw) of
                                Inl e \<Rightarrow> Inl e
                              | Inr bpw' \<Rightarrow> birthdays_loop today rest bpw'))
                   else birthdays_loop today rest bpw)))"

definition get_birthdays_per_week ::
  "date \<Rightarrow> AddressBook \<Rightarrow> exn + (string, string list) dict" where
  "get_birthdays_per_week today book =
     birthdays_loop today (dict_values book)
       [(''Monday'', []), (''Tuesday'', []), (''Wednesday'', []), (''Thursday'', []),
        (''Friday'', []), (''Next Monday'', [])]"

section \<open>Command handlers\<close>

text \<open>
  A handler returns a string or a list of strings; it may have changed the book, so it
  returns the book too. The body of a handler can raise; \<open>input_error\<close> turns the three
  exception classes it names into their messages and lets any other exception through.
\<close>

datatype reply = Str string | StrList "string list"

definition input_error :: "(exn + reply) \<times> 's \<Rightarrow> (exn + reply) \<times> 's" where
  "input_error res =
     (case fst res of
        Inl ValueError \<Rightarrow> (Inr (Str ''Give me name and phone please.''), snd res)
      | Inl KeyError \<Rightarrow> (Inr (Str ''Contact not found.''), snd res)
      | Inl IndexError \<Rightarrow>
          (Inr (Str ''Invalid input. Please provide the required information.''), snd res)
      | _ \<Rightarrow> res)"

definition handle_add_body :: "string list \<Rightarrow> AddressBook \<Rightarrow> (exn + reply) \<times> AddressBook" where
  "handle_add_body args book =
     (case args of
        [n, phone] \<Rightarrow>
          (case Record n of
             Inl e \<Rightarrow> (Inl e, book)
           | Inr record \<Rightarrow>
               (case add_phone phone record of
                  Inl e \<Rightarrow> (Inl e, book)
                | Inr record' \<Rightarrow> (Inr (Str ''Contact added.''), add_record record' book)))
      | _ \<Rightarrow> (Inr (Str ''Invalid input. Please provide a name and a phone number.''), book))"

definition handle_add :: "string list \<Rightarrow> AddressBook \<Rightarrow> (exn + reply) \<times> AddressBook" where
  "handle_add args book = input_error (handle_add_body args book)"

text \<open>
  In \<open>handle_change\<close> and \<open>handle_add_birthday\<close> the record found is the object held by
  the book, so the method changes the book's entry under that key. \<open>phones[0]\<close> raises
  \<open>IndexError\<close> on an empty list. A \<open>Record\<close> object is always true in \<open>if record\<close>.
\<close>

definition handle_change_body :: "string list \<Rightarrow> AddressBook \<Rightarrow> (exn + reply) \<times> AddressBook" where
  "handle_change_body args book =
     (case args of
        [n, new_phone] \<Rightarrow>
          (case find n book of
             Some record \<Rightarrow>
               (case phones record of
                  [] \<Rightarrow> (Inl IndexError, book)
                | p0 # _ \<Rightarrow>
                    (Inr (Str ''Contact updated.''),
                     dict_setitem n (edit_phone (fvalue p0) new_phone record) book))
           | None \<Rightarrow> (Inr (Str ''Contact not found.''), book))
      | _ \<Rightarrow> (Inr (Str ''Invalid input. Please provide a name and a new phone number.''), book))"

definition handle_change :: "string list \<Rightarrow> AddressBook \<Rightarrow> (exn + reply) \<times> AddressBook" where
  "handle_change args book = input_error (handle_change_body args book)"

definition handle_phone_body :: "string list \<Rightarrow> AddressBook \<Rightarrow> (exn + reply) \<times> AddressBook" where
  "handle_phone_body args book =
     (case args of
        [n] \<Rightarrow>
          (case find n book of
             Some record \<Rightarrow>
               (case phones record of
                  [] \<Rightarrow> (Inl IndexError, book)
                | p0 # _ \<Rightarrow> (Inr (Str (fvalue p0)), book))
           | None \<Rightarrow> (Inr (Str ''Contact not found.''), book))
      | _ \<Rightarrow> (Inr (Str ''Invalid input. Please provide a name.''), book))"

definition handle_phone :: "string list \<Rightarrow> AddressBook \<Rightarrow> (exn + reply) \<times> AddressBook" where
  "handle_phone args book = input_error (handle_phone_body args book)"

definition handle_all_body :: "AddressBook \<Rightarrow> (exn + reply) \<times> AddressBook" where
  "handle_all_body book = (Inr (StrList (map str_Record (dict_values book))), book)"

definition handle_all :: "AddressBook \<Rightarrow> (exn + reply) \<times> AddressBook" where
  "handle_all book = input_error (handle_all_body book)"

definition handle_add_birthday_body ::
  "string list \<Rightarrow> AddressBook \<Rightarrow> (exn + reply) \<times> AddressBook" where
  "handle_add_birthday_body args book =
     (case args of
        [n, b] \<Rightarrow>
          (case find n book of
             Some record \<Rightarrow>
               (case add_birthday b record of
                  Inl e \<Rightarrow> (Inl e, book)
                | Inr record' \<Rightarrow> (Inr (Str ''Birthday added.''), dict_setitem n record' book))
           | None \<Rightarrow> (Inr (Str ''Contact not found.''), book))
      | _ \<Rightarrow>
          (Inr (Str ''Invalid input. Please provide a name and a birthday (DD.MM.YYYY).''),
           book))"

definition handle_add_birthday ::
  "string list \<Rightarrow> AddressBook \<Rightarrow> (exn + reply) \<times> AddressBook" where
  "handle_add_birthday args book = input_error (handle_add_birthday_body args book)"

definition handle_show_birthday_body ::
  "string list \<Rightarrow> AddressBook \<Rightarrow> (exn + reply) \<times> AddressBook" where
  "handle_show_birthday_body args book =
     (case args of
        [n] \<Rightarrow>
          (case find n book of
             Some record \<Rightarrow>
               (case birthday record of
                  Some b \<Rightarrow> (Inr (Str (fvalue b)), book)
                | None \<Rightarrow> (Inr (Str ''Contact not found or birthday not specified.''), book))
           | None \<Rightarrow> (Inr (Str ''Contact not found or birthday not specified.''), book))
      | _ \<Rightarrow> (Inr (Str ''Invalid input. Please provide a name.''), book))"

definition handle_show_birthday ::
  "string list \<Rightarrow> AddressBook \<Rightarrow> (exn + reply) \<times> AddressBook" where
  "handle_show_birthday args book = input_error (handle_show_birthday_body args book)"

definition handle_birthdays_body :: "date \<Rightarrow> AddressBook \<Rightarrow> (exn + reply) \<times> AddressBook" where
  "handle_birthdays_body today book =
     (case get_birthdays_per_week today book of
        Inl e \<Rightarrow> (Inl e, book)
      | Inr birthdays \<Rightarrow>
          (Inr (StrList
             (map (\<lambda>(day, names). ''Next '' @ day @ '': '' @ join '', '' names)
                (filter (\<lambda>(day, names). names \<noteq> []) birthdays))),
           book))"

definition handle_birthdays :: "date \<Rightarrow> AddressBook \<Rightarrow> (exn + reply) \<times> AddressBook" where
  "handle_birthdays today book = input_error (handle_birthdays_body today book)"

section \<open>Notions of the specification\<close>

text \<open>
  The specification's "consists only of decimal digit characters": every character is
  one of \<open>0\<close>..\<open>9\<close>.
\<close>

definition decimal_digits :: "string \<Rightarrow> bool" where
  "decimal_digits s = list_all (\<lambda>c. c \<in> set ''0123456789'') s"

text \<open>
  The book states the program can reach: the operations applied one after the other to
  the empty book. \<open>keyed_by_name\<close> says that every record is stored under the string
  value of its own name.
\<close>

datatype command =
    Add_record Contact_Record
  | Delete string
  | Handle_add "string list"
  | Handle_change "string list"
  | Handle_phone "string list"
  | Handle_all
  | Handle_add_birthday "string list"
  | Handle_show_birthday "string list"
  | Handle_birthdays date

fun step :: "AddressBook \<Rightarrow> command \<Rightarrow> AddressBook" where
  "step book (Add_record r) = add_record r book"
| "step book (Delete n) = delete n book"
| "step book (Handle_add args) = snd (handle_add args book)"
| "step book (Handle_change args) = snd (handle_change args book)"
| "step book (Handle_phone args) = snd (handle_phone args book)"
| "step book Handle_all = snd (handle_all book)"
| "step book (Handle_add_birthday args) = snd (handle_add_birthday args book)"
| "step book (Handle_show_birthday args) = snd (handle_show_birthday args book)"
| "step book (Handle_birthdays today) = snd (handle_birthdays today book)"

definition run :: "command list \<Rightarrow> AddressBook" where
  "run cs = foldl step [] cs"

definition keyed_by_name :: "AddressBook \<Rightarrow> bool" where
  "keyed_by_name book = list_all (\<lambda>(k, r). fvalue (name r) = k) book"

text \<open>
  The weekly birthday query in the specification's words. \<open>in_week\<close>: the record has a
  birthday and the stored date, parsed with its stored year, is today or one of the six
  days after. \<open>bucket_of\<close>: "Next Monday" when that date is a Saturday or a Sunday, the
  name of its weekday otherwise. \<open>week_bucket\<close>: the names of the records of a bucket,
  in the order of the book. \<open>birthdays_valid\<close>: every stored birthday is a value that
  \<open>Birthday\<close> constructs.
\<close>

definition in_week :: "date \<Rightarrow> Contact_Record \<Rightarrow> bool" where
  "in_week today r =
     (case birthday r of
        None \<Rightarrow> False
      | Some b \<Rightarrow>
          (case strptime (fvalue b) of
             Inl _ \<Rightarrow> False
           | Inr d \<Rightarrow> 0 \<le> d - today \<and> d - today < 7))"

definition bucket_of :: "Contact_Record \<Rightarrow> string" where
  "bucket_of r =
     (case birthday r of
        None \<Rightarrow> []
      | Some b \<Rightarrow>
          (case strptime (fvalue b) of
             Inl _ \<Rightarrow> []
           | Inr d \<Rightarrow>
               if weekday d = 5 \<or> weekday d = 6 then ''Next Monday''
               else [''Monday'', ''Tuesday'', ''Wednesday'', ''Thursday'', ''Friday'']
                      ! nat (weekday d)))"

definition week_bucket :: "date \<Rightarrow> Contact_Record list \<Rightarrow> string \<Rightarrow> string list" where
  "week_bucket today rs label =
     map (\<lambda>r. fvalue (name r)) (filter (\<lambda>r. in_week today r \<and> bucket_of r = label) rs)"

definition bucket_labels :: "string list" where
  "bucket_labels =
     [''Monday'', ''Tuesday'', ''Wednesday'', ''Thursday'', ''Friday'', ''Next Monday'']"

definition birthdays_valid :: "AddressBook \<Rightarrow> bool" where
  "birthdays_valid book =
     list_all (\<lambda>(k, r). case birthday r of None \<Rightarrow> True
                         | Some b \<Rightarrow> Birthday (fvalue b) = Inr b) book"

text \<open>
  The specification's pattern for a birthday, "two-digit day, \<open>.\<close>, two-digit month,
  \<open>.\<close>, four-digit year", and a calendar-valid date.
\<close>

definition strict_shape :: "string \<Rightarrow> bool" where
  "strict_shape s =
     (length s = 10 \<and> decimal_digits (take 2 s) \<and> s ! 2 = CHR ''.''
      \<and> decimal_digits (take 2 (drop 3 s)) \<and> s ! 5 = CHR ''.''
      \<and> decimal_digits (drop 6 s))"

definition valid_date :: "int \<Rightarrow> int \<Rightarrow> int \<Rightarrow> bool" where
  "valid_date y m d =
     (1 \<le> y \<and> y \<le> 9999 \<and> 1 \<le> m \<and> m \<le> 12 \<and> 1 \<le> d \<and> d \<le> days_in_month y m)"

text \<open>
  The texts that \<open>strptime\<close> takes for the day and the month: one or two decimal
  digits, for the day also a blank followed by one decimal digit; the year is four
  decimal digits.
\<close>

definition day_text :: "string \<Rightarrow> bool" where
  "day_text D =
     ((decimal_digits D \<and> (length D = 1 \<or> length D = 2))
      \<or> (length D = 2 \<and> hd D = CHR '' '' \<and> decimal_digits (tl D)))"

definition month_text :: "string \<Rightarrow> bool" where
  "month_text M = (decimal_digits M \<and> (length M = 1 \<or> length M = 2))"

definition year_text :: "string \<Rightarrow> bool" where
  "year_text Y = (decimal_digits Y \<and> length Y = 4)"

text \<open>
  The words a regular expression matches, and the characters it can consume.
\<close>

fun lang :: "regex \<Rightarrow> string set" where
  "lang (Cls cs) = (\<lambda>c. [c]) ` set cs"
| "lang (Seq p q) = {a @ b | a b. a \<in> lang p \<and> b \<in> lang q}"
| "lang (Alt p q) = lang p \<union> lang q"

fun chars :: "regex \<Rightarrow> char set" where
  "chars (Cls cs) = set cs"
| "chars (Seq p q) = chars p \<union> chars q"
| "chars (Alt p q) = chars p \<union> chars q"

section \<open>Properties of the fields and of the record\<close>

lemma edit_phone_loop_absent:
  "\<forall>p \<in> set ps. fvalue p \<noteq> old_phone \<Longrightarrow> edit_phone_loop old_phone new_phone ps = ps"
  by (induction ps) simp_all

text \<open>
  C7: when no stored phone entry equals \<open>old\<close>, \<open>edit_phone old new\<close> returns the record
  as it was (phones, name and birthday), whatever \<open>new\<close> is; the function has no raising
  path at all.
\<close>

theorem edit_phone_absent_unchanged:
  assumes "\<forall>p \<in> set (phones r). fvalue p \<noteq> old_phone"
  shows "edit_phone old_phone new_phone r = r"
  using assms by (simp add: edit_phone_def edit_phone_loop_absent)

theorem edit_phone_absent_unchanged_witness:
  "''5555555555'' \<notin> set (map fvalue (phones \<lparr>name = \<lparr>fvalue = ''Bob''\<rparr>,
                       phones = [\<lparr>fvalue = ''1234567890''\<rparr>], birthday = None\<rparr>))
   \<and> Phone ''not-a-phone'' = Inl ValueError
   \<and> edit_phone ''5555555555'' ''not-a-phone''
        \<lparr>name = \<lparr>fvalue = ''Bob''\<rparr>, phones = [\<lparr>fvalue = ''1234567890''\<rparr>], birthday = None\<rparr>
      = \<lparr>name = \<lparr>fvalue = ''Bob''\<rparr>, phones = [\<lparr>fvalue = ''1234567890''\<rparr>], birthday = None\<rparr>"
proof -
  let ?r = "\<lparr>name = \<lparr>fvalue = ''Bob''\<rparr>, phones = [\<lparr>fvalue = ''1234567890''\<rparr>],
             birthday = None\<rparr>"
  have h: "\<forall>p \<in> set (phones ?r). fvalue p \<noteq> ''5555555555''" by simp
  have v: "Phone ''not-a-phone'' = Inl ValueError" by (simp add: Phone_def)
  show ?thesis
    using h v edit_phone_absent_unchanged [OF h, of "''not-a-phone''"] by simp
qed

lemma char_isdigit_iff:
  "char_isdigit c \<longleftrightarrow> c \<in> set ''0123456789'' \<union> {CHR 0xB2, CHR 0xB3, CHR 0xB9}"
  by (cases c) (simp add: char_isdigit_def Let_def)

lemma char_isdigit_ascii:
  "of_char c < (128::nat) \<Longrightarrow> char_isdigit c \<longleftrightarrow> c \<in> set ''0123456789''"
  by (cases c) (simp add: char_isdigit_def Let_def)

lemma isdigit_len10:
  "length s = 10 \<Longrightarrow> isdigit s \<longleftrightarrow> (\<forall>c \<in> set s. char_isdigit c)"
  by (auto simp: isdigit_def list_all_iff)

text \<open>
  C5 on the code: \<open>Phone\<close> tests \<open>value.isdigit()\<close>, which is true of the
  superscript two (U+00B2), so \<open>Phone\<close> succeeds on ten of them, a string of length 10
  without a single decimal digit; the constructor's own message asks for "a 10-digit
  number".
\<close>

theorem Phone_accepts_superscript_digits:
  "Phone [CHR 0xB2, CHR 0xB2, CHR 0xB2, CHR 0xB2, CHR 0xB2, CHR 0xB2, CHR 0xB2, CHR 0xB2,
          CHR 0xB2, CHR 0xB2]
     = Inr \<lparr>fvalue = [CHR 0xB2, CHR 0xB2, CHR 0xB2, CHR 0xB2, CHR 0xB2, CHR 0xB2, CHR 0xB2,
                      CHR 0xB2, CHR 0xB2, CHR 0xB2]\<rparr>
   \<and> \<not> (decimal_digits [CHR 0xB2, CHR 0xB2, CHR 0xB2, CHR 0xB2, CHR 0xB2, CHR 0xB2, CHR 0xB2,
                         CHR 0xB2, CHR 0xB2, CHR 0xB2]
        \<and> length [CHR 0xB2, CHR 0xB2, CHR 0xB2, CHR 0xB2, CHR 0xB2, CHR 0xB2, CHR 0xB2,
                  CHR 0xB2, CHR 0xB2, CHR 0xB2] = (10::nat))"
  by (simp add: Phone_def isdigit_def char_isdigit_def decimal_digits_def)

theorem Phone_accepts_superscript_digits_witness:
  "Phone [CHR 0xB2, CHR 0xB2, CHR 0xB2, CHR 0xB2, CHR 0xB2, CHR 0xB2, CHR 0xB2, CHR 0xB2,
          CHR 0xB2, CHR 0xB2] \<noteq> Inl ValueError
   \<and> str_Field \<lparr>fvalue = [CHR 0xB2, CHR 0xB2, CHR 0xB2, CHR 0xB2, CHR 0xB2, CHR 0xB2,
                            CHR 0xB2, CHR 0xB2, CHR 0xB2, CHR 0xB2]\<rparr>
       = [CHR 0xB2, CHR 0xB2, CHR 0xB2, CHR 0xB2, CHR 0xB2, CHR 0xB2, CHR 0xB2, CHR 0xB2,
          CHR 0xB2, CHR 0xB2]"
  using Phone_accepts_superscript_digits by (simp add: str_Field_def)

text \<open>
  What \<open>Phone\<close> accepts among the modelled strings (code points below 256): \<open>Phone s\<close>
  succeeds exactly when \<open>s\<close> has length 10 and every character is \<open>0\<close>..\<open>9\<close> or one
  of the superscripts U+00B9, U+00B2, U+00B3; it fails with \<open>ValueError\<close> otherwise, and a
  constructed \<open>Phone\<close> renders exactly \<open>s\<close>. On ASCII strings the condition is the
  specification's: only decimal digits and length 10.
\<close>

theorem Phone_accepts_iff:
  "(Phone s = Inr f \<longleftrightarrow>
      length s = 10 \<and> set s \<subseteq> set ''0123456789'' \<union> {CHR 0xB2, CHR 0xB3, CHR 0xB9}
      \<and> f = \<lparr>fvalue = s\<rparr>)
   \<and> (Phone s = Inr f \<longrightarrow> str_Field f = s)
   \<and> ((\<forall>f'. Phone s \<noteq> Inr f') \<longrightarrow> Phone s = Inl ValueError)
   \<and> ((\<forall>c \<in> set s. of_char c < (128::nat)) \<longrightarrow>
        ((\<exists>f'. Phone s = Inr f') \<longleftrightarrow> decimal_digits s \<and> length s = 10))"
proof -
  have a: "Phone s = Inr f \<longleftrightarrow>
      length s = 10 \<and> set s \<subseteq> set ''0123456789'' \<union> {CHR 0xB2, CHR 0xB3, CHR 0xB9}
      \<and> f = \<lparr>fvalue = s\<rparr>"
  proof (cases "length s = 10")
    case True
    have "(\<forall>c \<in> set s. char_isdigit c)
            \<longleftrightarrow> set s \<subseteq> set ''0123456789'' \<union> {CHR 0xB2, CHR 0xB3, CHR 0xB9}"
      using char_isdigit_iff by blast
    with True show ?thesis
      unfolding Phone_def by (auto simp: isdigit_len10)
  next
    case False
    then show ?thesis by (simp add: Phone_def)
  qed
  have b: "Phone s = Inr f \<longrightarrow> str_Field f = s"
    by (auto simp: Phone_def str_Field_def split: if_splits)
  have c: "(\<forall>f'. Phone s \<noteq> Inr f') \<longrightarrow> Phone s = Inl ValueError"
    by (simp add: Phone_def)
  have d: "(\<forall>c \<in> set s. of_char c < (128::nat)) \<longrightarrow>
        ((\<exists>f'. Phone s = Inr f') \<longleftrightarrow> decimal_digits s \<and> length s = 10)"
  proof
    assume asc: "\<forall>c \<in> set s. of_char c < (128::nat)"
    show "(\<exists>f'. Phone s = Inr f') \<longleftrightarrow> decimal_digits s \<and> length s = 10"
    proof (cases "length s = 10")
      case True
      have "(\<forall>c \<in> set s. char_isdigit c) \<longleftrightarrow> decimal_digits s"
        using asc char_isdigit_ascii by (auto simp: decimal_digits_def list_all_iff)
      with True show ?thesis
        unfolding Phone_def by (auto simp: isdigit_len10)
    next
      case False
      then show ?thesis by (simp add: Phone_def)
    qed
  qed
  from a b c d show ?thesis by blast
qed

theorem Phone_accepts_iff_witness:
  "Phone ''1234567890'' = Inr \<lparr>fvalue = ''1234567890''\<rparr>
   \<and> str_Field \<lparr>fvalue = ''1234567890''\<rparr> = ''1234567890''
   \<and> list_all (\<lambda>c. of_char c < (128::nat)) ''1234567890''
   \<and> decimal_digits ''1234567890''"
proof -
  have asc: "\<forall>c \<in> set ''1234567890''. of_char c < (128::nat)" by simp
  have ok: "Phone ''1234567890'' = Inr \<lparr>fvalue = ''1234567890''\<rparr>"
    by (simp add: Phone_def isdigit_def char_isdigit_def)
  from Phone_accepts_iff [of "''1234567890''" "\<lparr>fvalue = ''1234567890''\<rparr>"] asc ok
  have "str_Field \<lparr>fvalue = ''1234567890''\<rparr> = ''1234567890''"
    and "decimal_digits ''1234567890''" by blast+
  with ok show ?thesis by simp
qed

text \<open>
  C2 on the code: \<open>edit_phone\<close> stores a new value that \<open>Phone\<close> rejects, without an
  error, and it replaces every entry equal to \<open>old\<close>, not only the first.
\<close>

theorem edit_phone_skips_validation_and_edits_duplicates:
  "Phone ''abc'' = Inl ValueError
   \<and> edit_phone ''1234567890'' ''abc''
        \<lparr>name = \<lparr>fvalue = ''Bob''\<rparr>, phones = [\<lparr>fvalue = ''1234567890''\<rparr>], birthday = None\<rparr>
      = \<lparr>name = \<lparr>fvalue = ''Bob''\<rparr>, phones = [\<lparr>fvalue = ''abc''\<rparr>], birthday = None\<rparr>
   \<and> Phone ''0987654321'' = Inr \<lparr>fvalue = ''0987654321''\<rparr>
   \<and> edit_phone ''1234567890'' ''0987654321''
        \<lparr>name = \<lparr>fvalue = ''Bob''\<rparr>,
         phones = [\<lparr>fvalue = ''1234567890''\<rparr>, \<lparr>fvalue = ''1234567890''\<rparr>], birthday = None\<rparr>
      = \<lparr>name = \<lparr>fvalue = ''Bob''\<rparr>,
         phones = [\<lparr>fvalue = ''0987654321''\<rparr>, \<lparr>fvalue = ''0987654321''\<rparr>], birthday = None\<rparr>"
  by (simp add: Phone_def isdigit_def char_isdigit_def edit_phone_def)

theorem edit_phone_skips_validation_and_edits_duplicates_witness:
  "Phone ''abc'' = Inl ValueError
   \<and> phones (edit_phone ''1234567890'' ''abc''
        \<lparr>name = \<lparr>fvalue = ''Bob''\<rparr>, phones = [\<lparr>fvalue = ''1234567890''\<rparr>], birthday = None\<rparr>)
      = [\<lparr>fvalue = ''abc''\<rparr>]"
  using edit_phone_skips_validation_and_edits_duplicates by simp

lemma dict_setitem_keys:
  "map fst (dict_setitem k v d) = (if k \<in> set (map fst d) then map fst d else map fst d @ [k])"
  by (induction d) (force simp: image_iff)+

lemma dict_setitem_distinct:
  "distinct (map fst d) \<Longrightarrow> distinct (map fst (dict_setitem k v d))"
  by (simp add: dict_setitem_keys)

lemma map_of_dict_setitem:
  "map_of (dict_setitem k v d) = (map_of d)(k \<mapsto> v)"
  by (induction d) (auto simp: fun_eq_iff)

lemma dict_setitem_others:
  "filter (\<lambda>e. fst e \<noteq> k) (dict_setitem k v d) = filter (\<lambda>e. fst e \<noteq> k) d"
  by (induction d) auto

lemma distinct_keys_count:
  "distinct (map fst d) \<Longrightarrow> map_of d k = Some v \<Longrightarrow> filter (\<lambda>e. fst e = k) d = [(k, v)]"
proof (induction d)
  case Nil
  then show ?case by simp
next
  case (Cons e d)
  show ?case
  proof (cases "fst e = k")
    case True
    with Cons.prems have "filter (\<lambda>e. fst e = k) d = []"
      by (force simp: filter_empty_conv image_iff)
    with True Cons.prems show ?thesis by (cases e) (force simp: image_iff dest: map_of_SomeD)
  next
    case False
    with Cons show ?thesis by auto
  qed
qed

text \<open>
  C6: in a book (a dict, so with distinct keys), after \<open>add_record r1\<close> and then
  \<open>add_record r2\<close> for two records of the same name, looking the name up gives \<open>r2\<close>,
  the book has exactly one entry under that name, and the entries under every other
  name are the ones of the book before, in the same order.
\<close>

theorem add_record_same_name_overwrites:
  assumes "distinct (map fst book)" and "fvalue (name r1) = fvalue (name r2)"
  shows "find (fvalue (name r2)) (add_record r2 (add_record r1 book)) = Some r2
       \<and> filter (\<lambda>e. fst e = fvalue (name r2)) (add_record r2 (add_record r1 book))
           = [(fvalue (name r2), r2)]
       \<and> distinct (map fst (add_record r2 (add_record r1 book)))
       \<and> filter (\<lambda>e. fst e \<noteq> fvalue (name r2)) (add_record r2 (add_record r1 book))
           = filter (\<lambda>e. fst e \<noteq> fvalue (name r2)) book
       \<and> (\<forall>k. k \<noteq> fvalue (name r2) \<longrightarrow>
             find k (add_record r2 (add_record r1 book)) = find k book)"
proof -
  let ?n = "fvalue (name r2)"
  let ?b = "add_record r2 (add_record r1 book)"
  have d: "distinct (map fst ?b)"
    using assms(1) by (simp add: add_record_def dict_setitem_distinct)
  have f: "find ?n ?b = Some r2"
    by (simp add: find_def add_record_def map_of_dict_setitem)
  have c: "filter (\<lambda>e. fst e = ?n) ?b = [(?n, r2)]"
    using distinct_keys_count [OF d] f by (simp add: find_def)
  have o: "filter (\<lambda>e. fst e \<noteq> ?n) ?b = filter (\<lambda>e. fst e \<noteq> ?n) book"
    using assms(2) by (simp add: add_record_def dict_setitem_others)
  have k: "\<forall>k. k \<noteq> ?n \<longrightarrow> find k ?b = find k book"
    using assms(2) by (simp add: find_def add_record_def map_of_dict_setitem)
  from d f c o k show ?thesis by blast
qed

theorem add_record_same_name_overwrites_witness:
  "distinct (map fst [(''Ann'', \<lparr>name = \<lparr>fvalue = ''Ann''\<rparr>, phones = [], birthday = None\<rparr>)])
   \<and> find ''Bob''
        (add_record \<lparr>name = \<lparr>fvalue = ''Bob''\<rparr>, phones = [\<lparr>fvalue = ''0987654321''\<rparr>],
                     birthday = None\<rparr>
          (add_record \<lparr>name = \<lparr>fvalue = ''Bob''\<rparr>, phones = [], birthday = None\<rparr>
             [(''Ann'', \<lparr>name = \<lparr>fvalue = ''Ann''\<rparr>, phones = [], birthday = None\<rparr>)]))
      = Some \<lparr>name = \<lparr>fvalue = ''Bob''\<rparr>, phones = [\<lparr>fvalue = ''0987654321''\<rparr>],
              birthday = None\<rparr>"
proof -
  let ?ann = "\<lparr>name = \<lparr>fvalue = ''Ann''\<rparr>, phones = [], birthday = None\<rparr>"
  let ?r1 = "\<lparr>name = \<lparr>fvalue = ''Bob''\<rparr>, phones = [], birthday = None\<rparr>"
  let ?r2 = "\<lparr>name = \<lparr>fvalue = ''Bob''\<rparr>, phones = [\<lparr>fvalue = ''0987654321''\<rparr>],
              birthday = None\<rparr>"
  have d: "distinct (map fst [(''Ann'', ?ann)])" by simp
  have n: "fvalue (name ?r1) = fvalue (name ?r2)" by simp
  from add_record_same_name_overwrites [OF d n] d show ?thesis by simp
qed

section \<open>Properties of the handlers and of the book\<close>

text \<open>
  C8: on the empty book \<open>handle_add(["Bob", "1234567890"], book)\<close> returns
  "Contact added.", and afterwards \<open>find("Bob")\<close> gives a record whose phone list
  renders as the one entry "1234567890"; \<open>find\<close> of any name on the empty book gives
  the absence value \<open>None\<close> (it has no raising path).
\<close>

theorem handle_add_then_find:
  "fst (handle_add [''Bob'', ''1234567890''] []) = Inr (Str ''Contact added.'')
   \<and> (\<exists>r. find ''Bob'' (snd (handle_add [''Bob'', ''1234567890''] [])) = Some r
          \<and> map str_Field (phones r) = [''1234567890''])
   \<and> find n [] = None"
  by (simp add: handle_add_def handle_add_body_def input_error_def Record_def Name_def
      isalpha_def char_isalpha_def add_phone_def Phone_def isdigit_def char_isdigit_def
      add_record_def find_def str_Field_def)

theorem handle_add_then_find_witness:
  "fst (handle_add [''Bob'', ''1234567890''] []) = Inr (Str ''Contact added.'')
   \<and> find ''Carol'' [] = None"
  using handle_add_then_find [of "''Carol''"] by blast

text \<open>
  C9: when the book holds a record for \<open>n\<close>, \<open>handle_phone([n], book)\<close> returns the
  value of the first stored phone whatever follows it, and with an empty phone list it
  returns "Invalid input. Please provide the required information." (the \<open>IndexError\<close>
  of \<open>phones[0]\<close> is caught by \<open>input_error\<close>); the book is unchanged.
\<close>

theorem handle_phone_first_phone:
  assumes "find n book = Some r"
  shows "handle_phone [n] book =
           (Inr (Str (case phones r of
                        [] \<Rightarrow> ''Invalid input. Please provide the required information.''
                      | p0 # _ \<Rightarrow> fvalue p0)),
            book)"
  using assms
  by (simp add: handle_phone_def handle_phone_body_def input_error_def split: list.splits)

theorem handle_phone_first_phone_witness:
  "find ''Bob'' [(''Bob'', \<lparr>name = \<lparr>fvalue = ''Bob''\<rparr>,
                           phones = [\<lparr>fvalue = ''1234567890''\<rparr>, \<lparr>fvalue = ''0987654321''\<rparr>],
                           birthday = None\<rparr>)]
     = Some \<lparr>name = \<lparr>fvalue = ''Bob''\<rparr>,
             phones = [\<lparr>fvalue = ''1234567890''\<rparr>, \<lparr>fvalue = ''0987654321''\<rparr>],
             birthday = None\<rparr>
   \<and> fst (handle_phone [''Bob'']
            [(''Bob'', \<lparr>name = \<lparr>fvalue = ''Bob''\<rparr>,
                        phones = [\<lparr>fvalue = ''1234567890''\<rparr>, \<lparr>fvalue = ''0987654321''\<rparr>],
                        birthday = None\<rparr>)])
       = Inr (Str ''1234567890'')
   \<and> find ''Ann'' [(''Ann'', \<lparr>name = \<lparr>fvalue = ''Ann''\<rparr>, phones = [], birthday = None\<rparr>)]
       = Some \<lparr>name = \<lparr>fvalue = ''Ann''\<rparr>, phones = [], birthday = None\<rparr>
   \<and> fst (handle_phone [''Ann'']
            [(''Ann'', \<lparr>name = \<lparr>fvalue = ''Ann''\<rparr>, phones = [], birthday = None\<rparr>)])
       = Inr (Str ''Invalid input. Please provide the required information.'')"
proof -
  let ?bob = "\<lparr>name = \<lparr>fvalue = ''Bob''\<rparr>,
               phones = [\<lparr>fvalue = ''1234567890''\<rparr>, \<lparr>fvalue = ''0987654321''\<rparr>],
               birthday = None\<rparr>"
  let ?ann = "\<lparr>name = \<lparr>fvalue = ''Ann''\<rparr>, phones = [], birthday = None\<rparr>"
  have b: "find ''Bob'' [(''Bob'', ?bob)] = Some ?bob" by (simp add: find_def)
  have a: "find ''Ann'' [(''Ann'', ?ann)] = Some ?ann" by (simp add: find_def)
  from handle_phone_first_phone [OF b] handle_phone_first_phone [OF a] a b
  show ?thesis by simp
qed

lemma days_before_year_split:
  "days_before_year y = (y - 1) * 365 + ((y - 1) div 4 - (y - 1) div 100) + (y - 1) div 400"
  by (simp add: days_before_year_def Let_def)

lemma days_before_year_lo:
  assumes "1 \<le> y"
  shows "0 \<le> days_before_year y"
proof -
  have a: "(y - 1) div 100 \<le> (y - 1) div 4"
    using assms by (intro zdiv_mono2) simp_all
  have b: "0 \<le> (y - 1) div 400"
    using assms by (simp add: pos_imp_zdiv_nonneg_iff)
  have c: "0 \<le> (y - 1) * 365"
    using assms by simp
  define p where "p = (y - 1) * 365"
  define q where "q = (y - 1) div 4 - (y - 1) div 100"
  define r where "r = (y - 1) div 400"
  have "0 \<le> p" "0 \<le> q" "0 \<le> r" using a b c by (simp_all add: p_def q_def r_def)
  then have "0 \<le> p + q + r" by simp
  then show ?thesis by (simp only: days_before_year_split p_def q_def r_def)
qed

lemma days_before_year_hi:
  assumes "1 \<le> y" and "y \<le> 9998"
  shows "days_before_year y \<le> 3651428"
proof -
  have a: "(y - 1) div 4 \<le> 9997 div 4"
    using assms by (intro zdiv_mono1) simp_all
  have a': "0 \<le> (y - 1) div 100"
    using assms by (simp add: pos_imp_zdiv_nonneg_iff)
  have b: "(y - 1) div 400 \<le> 9997 div 400"
    using assms by (intro zdiv_mono1) simp_all
  have c: "(y - 1) * 365 \<le> 9997 * 365"
    using assms by simp
  define p where "p = (y - 1) * 365"
  define q where "q = (y - 1) div 4 - (y - 1) div 100"
  define r where "r = (y - 1) div 400"
  have "p \<le> 3648905" "q \<le> 2499" "r \<le> 24" using a a' b c by (simp_all add: p_def q_def r_def)
  then have "p + q + r \<le> 3651428" by simp
  then show ?thesis by (simp only: days_before_year_split p_def q_def r_def)
qed

lemma days_before_year_9999: "days_before_year 9999 = 3651694"
  by (simp add: days_before_year_def)

lemma month_cases:
  "1 \<le> (m::int) \<Longrightarrow> m \<le> 12 \<Longrightarrow>
   m = 1 \<or> m = 2 \<or> m = 3 \<or> m = 4 \<or> m = 5 \<or> m = 6 \<or> m = 7 \<or> m = 8 \<or> m = 9 \<or> m = 10
   \<or> m = 11 \<or> m = 12"
  by arith

lemma days_before_month_bounds:
  assumes "1 \<le> m" and "m \<le> 12"
  shows "0 \<le> days_before_month y m"
    and "days_before_month y m + days_in_month y m \<le> 365 + (if is_leap y then 1 else 0)"
  using month_cases [OF assms]
  by (auto simp: days_before_month_def days_in_month_def)

lemma not_leap_9999: "\<not> is_leap 9999"
  by (simp add: is_leap_def)

lemma mk_date_range:
  assumes "mk_date y m d = Inr n"
  shows "0 < n \<and> n \<le> MAXORDINAL"
proof -
  from assms have y: "1 \<le> y" "y \<le> 9999" and m: "1 \<le> m" "m \<le> 12"
    and d: "1 \<le> d" "d \<le> days_in_month y m" and n: "n = ymd2ord y m d"
    by (auto simp: mk_date_def split: if_splits)
  note bm = days_before_month_bounds [OF m, of y]
  have lo: "0 < n"
    using days_before_year_lo [OF y(1)] bm(1) d(1) by (simp add: n ymd2ord_def)
  have hi: "n \<le> 3652059"
  proof (cases "y = 9999")
    case True
    with bm(2) not_leap_9999 have "days_before_month y m + days_in_month y m \<le> 365" by simp
    with True d(2) show ?thesis by (simp add: n ymd2ord_def days_before_year_9999)
  next
    case False
    with y have "y \<le> 9998" by simp
    from days_before_year_hi [OF y(1) this] bm(2) d(2) show ?thesis
      by (simp add: n ymd2ord_def split: if_splits)
  qed
  from lo hi show ?thesis by (simp add: MAXORDINAL_def)
qed

lemma strptime_range: "strptime s = Inr d \<Longrightarrow> 0 < d \<and> d \<le> MAXORDINAL"
  unfolding strptime_def
  by (auto split: list.splits if_splits prod.splits dest: mk_date_range)


lemma bucket_append_raises: "bucket_append k n bpw = Inl e \<Longrightarrow> e = KeyError"
  by (auto simp: bucket_append_def split: option.splits)

lemma birthdays_loop_raises:
  "birthdays_loop today rs bpw = Inl e \<Longrightarrow> e = ValueError \<or> e = KeyError"
proof (induction rs arbitrary: bpw)
  case Nil
  then show ?case by simp
next
  case (Cons r rs)
  show ?case
  proof (cases "birthday r")
    case None
    with Cons show ?thesis by simp
  next
    case (Some b)
    show ?thesis
    proof (cases "strptime (fvalue b)")
      case (Inl e')
      then have "e' = ValueError"
        by (auto simp: strptime_def mk_date_def split: list.splits if_splits prod.splits)
      with Inl Some Cons.prems show ?thesis by simp
    next
      case (Inr d)
      from strptime_range [OF Inr]
      have add: "date_add_days today (date_sub_days d today) = Inr d"
        by (simp add: date_add_days_def date_sub_days_def)
      from Cons.prems Some Inr add Cons.IH show ?thesis
        by (auto simp: Let_def split: if_splits sum.splits dest: bucket_append_raises)
    qed
  qed
qed


lemma get_birthdays_per_week_raises:
  "get_birthdays_per_week today book = Inl e \<Longrightarrow> e = ValueError \<or> e = KeyError"
  unfolding get_birthdays_per_week_def by (rule birthdays_loop_raises)

lemma Name_raises: "Name n = Inl e \<Longrightarrow> e = ValueError"
  by (simp add: Name_def split: if_splits)

lemma Phone_raises: "Phone p = Inl e \<Longrightarrow> e = ValueError"
  by (simp add: Phone_def split: if_splits)

lemma strptime_raises: "strptime s = Inl e \<Longrightarrow> e = ValueError"
  by (auto simp: strptime_def mk_date_def split: list.splits if_splits prod.splits)

lemma Birthday_raises: "Birthday b = Inl e \<Longrightarrow> e = ValueError"
  by (auto simp: Birthday_def split: sum.splits exn.splits dest: strptime_raises)

lemma input_error_returns:
  "fst res \<noteq> Inl OverflowError \<Longrightarrow> \<exists>r. fst (input_error res) = Inr r"
  by (cases "fst res") (auto simp: input_error_def split: exn.splits)

lemma input_error_snd: "snd (input_error res) = snd res"
  by (cases res) (auto simp: input_error_def split: sum.splits exn.splits)

lemma handle_add_returns: "\<exists>r. fst (handle_add args book) = Inr r"
  unfolding handle_add_def
  by (rule input_error_returns)
     (auto simp: handle_add_body_def Record_def add_phone_def
           split: list.splits sum.splits dest: Name_raises Phone_raises)

lemma handle_change_returns: "\<exists>r. fst (handle_change args book) = Inr r"
  unfolding handle_change_def
  by (rule input_error_returns)
     (auto simp: handle_change_body_def split: list.splits option.splits)

lemma handle_phone_returns: "\<exists>r. fst (handle_phone args book) = Inr r"
  unfolding handle_phone_def
  by (rule input_error_returns)
     (auto simp: handle_phone_body_def split: list.splits option.splits)

lemma handle_all_returns: "\<exists>r. fst (handle_all book) = Inr r"
  by (simp add: handle_all_def handle_all_body_def input_error_def)

lemma handle_add_birthday_returns: "\<exists>r. fst (handle_add_birthday args book) = Inr r"
  unfolding handle_add_birthday_def
  by (rule input_error_returns)
     (auto simp: handle_add_birthday_body_def add_birthday_def
           split: list.splits option.splits sum.splits dest: Birthday_raises)

lemma handle_show_birthday_returns: "\<exists>r. fst (handle_show_birthday args book) = Inr r"
  unfolding handle_show_birthday_def
  by (rule input_error_returns)
     (auto simp: handle_show_birthday_body_def split: list.splits option.splits)

lemma handle_birthdays_returns: "\<exists>r. fst (handle_birthdays today book) = Inr r"
  unfolding handle_birthdays_def
  by (rule input_error_returns)
     (auto simp: handle_birthdays_body_def split: sum.splits
           dest: get_birthdays_per_week_raises)

lemma handle_add_invalid:
  "Name n = Inl ValueError \<or> Phone p = Inl ValueError \<Longrightarrow>
   handle_add [n, p] book = (Inr (Str ''Give me name and phone please.''), book)"
  by (auto simp: handle_add_def handle_add_body_def input_error_def Record_def add_phone_def
           split: sum.splits dest: Name_raises Phone_raises)

lemma handle_add_birthday_invalid:
  "find n book = Some r \<Longrightarrow> Birthday b = Inl ValueError \<Longrightarrow>
   handle_add_birthday [n, b] book = (Inr (Str ''Give me name and phone please.''), book)"
  by (simp add: handle_add_birthday_def handle_add_birthday_body_def input_error_def
        add_birthday_def)

lemma handlers_not_found:
  assumes "find n book = None"
  shows "handle_change [n, p] book = (Inr (Str ''Contact not found.''), book)"
    and "handle_phone [n] book = (Inr (Str ''Contact not found.''), book)"
    and "handle_add_birthday [n, p] book = (Inr (Str ''Contact not found.''), book)"
    and "handle_show_birthday [n] book
           = (Inr (Str ''Contact not found or birthday not specified.''), book)"
  using assms
  by (simp_all add: handle_change_def handle_change_body_def handle_phone_def
        handle_phone_body_def handle_add_birthday_def handle_add_birthday_body_def
        handle_show_birthday_def handle_show_birthday_body_def input_error_def)

lemma handlers_wrong_count2:
  assumes "length args \<noteq> 2"
  shows "handle_add args book
           = (Inr (Str ''Invalid input. Please provide a name and a phone number.''), book)"
    and "handle_change args book
           = (Inr (Str ''Invalid input. Please provide a name and a new phone number.''), book)"
    and "handle_add_birthday args book
           = (Inr (Str ''Invalid input. Please provide a name and a birthday (DD.MM.YYYY).''),
              book)"
  using assms
  by (auto simp: handle_add_def handle_add_body_def handle_change_def handle_change_body_def
        handle_add_birthday_def handle_add_birthday_body_def input_error_def
        split: list.splits)

lemma handlers_wrong_count1:
  assumes "length args \<noteq> 1"
  shows "handle_phone args book = (Inr (Str ''Invalid input. Please provide a name.''), book)"
    and "handle_show_birthday args book
           = (Inr (Str ''Invalid input. Please provide a name.''), book)"
  using assms
  by (auto simp: handle_phone_def handle_phone_body_def handle_show_birthday_def
        handle_show_birthday_body_def input_error_def split: list.splits)

lemma handlers_no_phone:
  assumes "find n book = Some r" and "phones r = []"
  shows "handle_change [n, p] book
           = (Inr (Str ''Invalid input. Please provide the required information.''), book)"
    and "handle_phone [n] book
           = (Inr (Str ''Invalid input. Please provide the required information.''), book)"
  using assms
  by (simp_all add: handle_change_def handle_change_body_def handle_phone_def
        handle_phone_body_def input_error_def)

text \<open>
  C3 as stated fails: a wrong number of arguments gets the handler's own message, not
  "Invalid input. Please provide the required information.", and a lookup miss in
  \<open>handle_show_birthday\<close> gets "Contact not found or birthday not specified.".
\<close>

theorem handler_messages_counterexample:
  "handle_add [''Bob''] []
     = (Inr (Str ''Invalid input. Please provide a name and a phone number.''), [])
   \<and> ''Invalid input. Please provide a name and a phone number.''
       \<noteq> ''Invalid input. Please provide the required information.''
   \<and> handle_show_birthday [''Carol''] []
       = (Inr (Str ''Contact not found or birthday not specified.''), [])
   \<and> ''Contact not found or birthday not specified.'' \<noteq> ''Contact not found.''"
  by (simp add: handle_add_def handle_add_body_def handle_show_birthday_def
      handle_show_birthday_body_def input_error_def find_def)

text \<open>
  C3, amended: no handler lets an exception out, for any arguments, book and date.
  A \<open>ValueError\<close> of \<open>Name\<close>, \<open>Phone\<close> or \<open>Birthday\<close> becomes
  "Give me name and phone please."; a lookup miss gives "Contact not found." in
  \<open>handle_change\<close>, \<open>handle_phone\<close> and \<open>handle_add_birthday\<close> and
  "Contact not found or birthday not specified." in \<open>handle_show_birthday\<close>; a wrong
  number of arguments gives the message of the handler's own \<open>else\<close> branch;
  "Invalid input. Please provide the required information." is what \<open>handle_change\<close>
  and \<open>handle_phone\<close> return for a record without phones.
\<close>

theorem handlers_convert_errors:
  "(\<exists>r. fst (handle_add args book) = Inr r)
   \<and> (\<exists>r. fst (handle_change args book) = Inr r)
   \<and> (\<exists>r. fst (handle_phone args book) = Inr r)
   \<and> (\<exists>r. fst (handle_all book) = Inr r)
   \<and> (\<exists>r. fst (handle_add_birthday args book) = Inr r)
   \<and> (\<exists>r. fst (handle_show_birthday args book) = Inr r)
   \<and> (\<exists>r. fst (handle_birthdays today book) = Inr r)
   \<and> (Name n = Inl ValueError \<or> Phone p = Inl ValueError \<longrightarrow>
        handle_add [n, p] book = (Inr (Str ''Give me name and phone please.''), book))
   \<and> (find n book \<noteq> None \<and> Birthday p = Inl ValueError \<longrightarrow>
        handle_add_birthday [n, p] book = (Inr (Str ''Give me name and phone please.''), book))
   \<and> (find n book = None \<longrightarrow>
        handle_change [n, p] book = (Inr (Str ''Contact not found.''), book)
        \<and> handle_phone [n] book = (Inr (Str ''Contact not found.''), book)
        \<and> handle_add_birthday [n, p] book = (Inr (Str ''Contact not found.''), book)
        \<and> handle_show_birthday [n] book
            = (Inr (Str ''Contact not found or birthday not specified.''), book))
   \<and> (length args \<noteq> 2 \<longrightarrow>
        handle_add args book
          = (Inr (Str ''Invalid input. Please provide a name and a phone number.''), book)
        \<and> handle_change args book
          = (Inr (Str ''Invalid input. Please provide a name and a new phone number.''), book)
        \<and> handle_add_birthday args book
          = (Inr (Str ''Invalid input. Please provide a name and a birthday (DD.MM.YYYY).''),
             book))
   \<and> (length args \<noteq> 1 \<longrightarrow>
        handle_phone args book = (Inr (Str ''Invalid input. Please provide a name.''), book)
        \<and> handle_show_birthday args book
          = (Inr (Str ''Invalid input. Please provide a name.''), book))
   \<and> ((\<exists>r. find n book = Some r \<and> phones r = []) \<longrightarrow>
        handle_change [n, p] book
          = (Inr (Str ''Invalid input. Please provide the required information.''), book)
        \<and> handle_phone [n] book
          = (Inr (Str ''Invalid input. Please provide the required information.''), book))"
proof -
  have v2: "find n book \<noteq> None \<and> Birthday p = Inl ValueError \<longrightarrow>
        handle_add_birthday [n, p] book = (Inr (Str ''Give me name and phone please.''), book)"
    using handle_add_birthday_invalid by blast
  have ix: "(\<exists>r. find n book = Some r \<and> phones r = []) \<longrightarrow>
        handle_change [n, p] book
          = (Inr (Str ''Invalid input. Please provide the required information.''), book)
        \<and> handle_phone [n] book
          = (Inr (Str ''Invalid input. Please provide the required information.''), book)"
    using handlers_no_phone by blast
  show ?thesis
    using handle_add_returns [of args book] handle_change_returns [of args book]
      handle_phone_returns [of args book] handle_all_returns [of book]
      handle_add_birthday_returns [of args book] handle_show_birthday_returns [of args book]
      handle_birthdays_returns [of today book]
      handle_add_invalid [of n p book] v2
      handlers_not_found [of n book] handlers_wrong_count2 [of args book]
      handlers_wrong_count1 [of args book] ix
    by (intro conjI impI) blast+
qed


theorem handlers_convert_errors_witness:
  "(Name ''B'' = Inl ValueError \<or> Phone ''123'' = Inl ValueError)
   \<and> handle_add [''B'', ''123''] [] = (Inr (Str ''Give me name and phone please.''), [])
   \<and> find ''Carol'' [] = None
   \<and> handle_phone [''Carol''] [] = (Inr (Str ''Contact not found.''), [])
   \<and> length [''Bob''] \<noteq> 2
   \<and> handle_add [''Bob''] []
       = (Inr (Str ''Invalid input. Please provide a name and a phone number.''), [])
   \<and> length ([] :: string list) \<noteq> 1
   \<and> handle_phone [] [] = (Inr (Str ''Invalid input. Please provide a name.''), [])
   \<and> (find ''Ann'' [(''Ann'', \<lparr>name = \<lparr>fvalue = ''Ann''\<rparr>, phones = [], birthday = None\<rparr>)]
         \<noteq> None
        \<and> Birthday ''29.02.2021'' = Inl ValueError)
   \<and> handle_add_birthday [''Ann'', ''29.02.2021'']
         [(''Ann'', \<lparr>name = \<lparr>fvalue = ''Ann''\<rparr>, phones = [], birthday = None\<rparr>)]
       = (Inr (Str ''Give me name and phone please.''),
          [(''Ann'', \<lparr>name = \<lparr>fvalue = ''Ann''\<rparr>, phones = [], birthday = None\<rparr>)])
   \<and> (\<exists>r. find ''Ann'' [(''Ann'', \<lparr>name = \<lparr>fvalue = ''Ann''\<rparr>, phones = [], birthday = None\<rparr>)]
              = Some r \<and> phones r = [])
   \<and> handle_change [''Ann'', ''29.02.2021'']
         [(''Ann'', \<lparr>name = \<lparr>fvalue = ''Ann''\<rparr>, phones = [], birthday = None\<rparr>)]
       = (Inr (Str ''Invalid input. Please provide the required information.''),
          [(''Ann'', \<lparr>name = \<lparr>fvalue = ''Ann''\<rparr>, phones = [], birthday = None\<rparr>)])"
proof -
  let ?ann = "[(''Ann'', \<lparr>name = \<lparr>fvalue = ''Ann''\<rparr>, phones = [], birthday = None\<rparr>)]"
  have h1: "Name ''B'' = Inl ValueError \<or> Phone ''123'' = Inl ValueError"
    by (simp add: Name_def)
  have h2: "find ''Carol'' [] = None"
    by (simp add: find_def)
  have h3: "length [''Bob''] \<noteq> 2" and h4: "length ([] :: string list) \<noteq> 1"
    by simp_all
  have h5a: "Birthday ''29.02.2021'' = Inl ValueError"
    by code_simp
  have h5: "find ''Ann'' ?ann \<noteq> None \<and> Birthday ''29.02.2021'' = Inl ValueError"
    using h5a by (simp add: find_def)
  have h6: "\<exists>r. find ''Ann'' ?ann = Some r \<and> phones r = []"
    by (simp add: find_def)
  note t1 = handlers_convert_errors [where n = "''B''" and p = "''123''" and book = "[]"
      and args = "[''Bob'']"]
  note t2 = handlers_convert_errors [where n = "''Carol''" and book = "[]" and args = "[]"]
  note t3 = handlers_convert_errors [where n = "''Ann''" and p = "''29.02.2021''"
      and book = ?ann]
  from t1 h1 have c1: "handle_add [''B'', ''123''] []
      = (Inr (Str ''Give me name and phone please.''), [])" by blast
  from t1 h3 have c3: "handle_add [''Bob''] []
      = (Inr (Str ''Invalid input. Please provide a name and a phone number.''), [])" by blast
  from t2 h2 have c2: "handle_phone [''Carol''] [] = (Inr (Str ''Contact not found.''), [])"
    by blast
  from t2 h4 have c4: "handle_phone [] []
      = (Inr (Str ''Invalid input. Please provide a name.''), [])" by blast
  from t3 h5 have c5: "handle_add_birthday [''Ann'', ''29.02.2021''] ?ann
      = (Inr (Str ''Give me name and phone please.''), ?ann)" by blast
  from t3 h6 have c6: "handle_change [''Ann'', ''29.02.2021''] ?ann
      = (Inr (Str ''Invalid input. Please provide the required information.''), ?ann)" by blast
  from h1 h2 h3 h4 h5 h6 c1 c2 c3 c4 c5 c6 show ?thesis by blast
qed

lemma keyed_by_name_iff:
  "keyed_by_name book \<longleftrightarrow> (\<forall>(k, r) \<in> set book. fvalue (name r) = k)"
  by (simp add: keyed_by_name_def list_all_iff)

lemma keyed_by_name_setitem:
  "keyed_by_name book \<Longrightarrow> fvalue (name r) = k \<Longrightarrow> keyed_by_name (dict_setitem k r book)"
  by (induction book) (auto simp: keyed_by_name_def)

lemma keyed_by_name_delitem:
  "keyed_by_name book \<Longrightarrow> keyed_by_name (dict_delitem k book)"
  by (induction book) (auto simp: keyed_by_name_def)

lemma keyed_by_name_find:
  "keyed_by_name book \<Longrightarrow> find k book = Some r \<Longrightarrow> fvalue (name r) = k"
  by (auto simp: keyed_by_name_iff find_def dest: map_of_SomeD)

lemma keyed_by_name_add_record: "keyed_by_name book \<Longrightarrow> keyed_by_name (add_record r book)"
  by (simp add: add_record_def keyed_by_name_setitem)

lemma keyed_by_name_delete: "keyed_by_name book \<Longrightarrow> keyed_by_name (delete n book)"
  by (simp add: delete_def keyed_by_name_delitem)

lemma name_edit_phone: "name (edit_phone a b r) = name r"
  by (simp add: edit_phone_def)

lemma name_add_birthday: "add_birthday b r = Inr r' \<Longrightarrow> name r' = name r"
  by (auto simp: add_birthday_def split: sum.splits)

lemma keyed_by_name_handle_add:
  "keyed_by_name book \<Longrightarrow> keyed_by_name (snd (handle_add args book))"
  by (auto simp: handle_add_def input_error_snd handle_add_body_def keyed_by_name_add_record
           split: list.splits sum.splits)

lemma keyed_by_name_handle_change:
  "keyed_by_name book \<Longrightarrow> keyed_by_name (snd (handle_change args book))"
  by (auto simp: handle_change_def input_error_snd handle_change_body_def name_edit_phone
           split: list.splits option.splits
           intro!: keyed_by_name_setitem dest: keyed_by_name_find)

lemma keyed_by_name_handle_add_birthday:
  assumes "keyed_by_name book"
  shows "keyed_by_name (snd (handle_add_birthday args book))"
proof -
  have "keyed_by_name (dict_setitem n r' book)"
    if "find n book = Some r" and "add_birthday b r = Inr r'" for n b r r'
  proof -
    have "fvalue (name r') = n"
      using keyed_by_name_find [OF assms that(1)] name_add_birthday [OF that(2)] by simp
    with assms show ?thesis by (rule keyed_by_name_setitem)
  qed
  with assms show ?thesis
    by (auto simp: handle_add_birthday_def input_error_snd handle_add_birthday_body_def
          split: list.splits option.splits sum.splits)
qed

lemma handlers_keep_book:
  "snd (handle_phone args book) = book"
  "snd (handle_all book) = book"
  "snd (handle_show_birthday args book) = book"
  "snd (handle_birthdays today book) = book"
  by (auto simp: handle_phone_def handle_all_def handle_show_birthday_def handle_birthdays_def
        input_error_snd handle_phone_body_def handle_all_body_def
        handle_show_birthday_body_def handle_birthdays_body_def
        split: list.splits option.splits sum.splits)

lemma keyed_by_name_step: "keyed_by_name book \<Longrightarrow> keyed_by_name (step book c)"
  by (cases c)
     (simp_all add: keyed_by_name_add_record keyed_by_name_delete keyed_by_name_handle_add
        keyed_by_name_handle_change keyed_by_name_handle_add_birthday handlers_keep_book)

lemma keyed_by_name_foldl:
  "keyed_by_name book \<Longrightarrow> keyed_by_name (foldl step book cs)"
  by (induction cs arbitrary: book) (simp_all add: keyed_by_name_step)

text \<open>
  C10: in every book reached from the empty book by \<open>add_record\<close>, \<open>delete\<close> and the
  command handlers, each key \<open>k\<close> holds a record whose name has the string value \<open>k\<close>.
\<close>

theorem reachable_book_keyed_by_name:
  "keyed_by_name (run cs)
   \<and> (\<forall>k r. find k (run cs) = Some r \<longrightarrow> fvalue (name r) = k)"
proof -
  have "keyed_by_name []" by (simp add: keyed_by_name_def)
  then have "keyed_by_name (run cs)"
    unfolding run_def by (rule keyed_by_name_foldl)
  then show ?thesis by (blast dest: keyed_by_name_find)
qed

theorem reachable_book_keyed_by_name_witness:
  "run [Handle_add [''Bob'', ''1234567890''],
        Add_record \<lparr>name = \<lparr>fvalue = ''Ann''\<rparr>, phones = [], birthday = None\<rparr>,
        Handle_change [''Bob'', ''0987654321''], Delete ''Ann'']
     = [(''Bob'', \<lparr>name = \<lparr>fvalue = ''Bob''\<rparr>, phones = [\<lparr>fvalue = ''0987654321''\<rparr>],
                  birthday = None\<rparr>)]
   \<and> find ''Bob'' (run [Handle_add [''Bob'', ''1234567890''],
        Add_record \<lparr>name = \<lparr>fvalue = ''Ann''\<rparr>, phones = [], birthday = None\<rparr>,
        Handle_change [''Bob'', ''0987654321''], Delete ''Ann''])
     = Some \<lparr>name = \<lparr>fvalue = ''Bob''\<rparr>, phones = [\<lparr>fvalue = ''0987654321''\<rparr>],
             birthday = None\<rparr>
   \<and> fvalue (name \<lparr>name = \<lparr>fvalue = ''Bob''\<rparr>, phones = [\<lparr>fvalue = ''0987654321''\<rparr>],
                    birthday = None\<rparr>) = ''Bob''"
proof -
  let ?cs = "[Handle_add [''Bob'', ''1234567890''],
        Add_record \<lparr>name = \<lparr>fvalue = ''Ann''\<rparr>, phones = [], birthday = None\<rparr>,
        Handle_change [''Bob'', ''0987654321''], Delete ''Ann'']"
  let ?bob = "\<lparr>name = \<lparr>fvalue = ''Bob''\<rparr>, phones = [\<lparr>fvalue = ''0987654321''\<rparr>],
               birthday = None\<rparr>"
  have r: "run ?cs = [(''Bob'', ?bob)]"
    by code_simp
  then have f: "find ''Bob'' (run ?cs) = Some ?bob"
    by (simp add: find_def)
  from reachable_book_keyed_by_name [of ?cs] f have "fvalue (name ?bob) = ''Bob''"
    by blast
  with r f show ?thesis by blast
qed

section \<open>The weekly birthday query\<close>

lemma weekday_cases:
  "weekday d = 0 \<or> weekday d = 1 \<or> weekday d = 2 \<or> weekday d = 3 \<or> weekday d = 4
   \<or> weekday d = 5 \<or> weekday d = 6"
proof -
  have "0 \<le> weekday d" and "weekday d < 7"
    by (simp_all add: weekday_def)
  then show ?thesis by arith
qed

lemma strftime_A_weekend:
  "strftime_A d \<in> set [''Saturday'', ''Sunday''] \<longleftrightarrow> weekday d = 5 \<or> weekday d = 6"
  using weekday_cases [of d] by (auto simp: strftime_A_def)

lemma strftime_A_workday:
  "\<not> (weekday d = 5 \<or> weekday d = 6) \<Longrightarrow>
   strftime_A d = [''Monday'', ''Tuesday'', ''Wednesday'', ''Thursday'', ''Friday'']
                    ! nat (weekday d)"
  using weekday_cases [of d] by (auto simp: strftime_A_def)

lemma birthdays_loop_skip:
  "\<not> in_week today r \<Longrightarrow> (\<forall>b. birthday r = Some b \<longrightarrow> (\<exists>d. strptime (fvalue b) = Inr d)) \<Longrightarrow>
   birthdays_loop today (r # rs) bpw = birthdays_loop today rs bpw"
  by (auto simp: in_week_def date_sub_days_def Let_def split: option.splits sum.splits)

lemma birthdays_loop_take:
  assumes "in_week today r"
  shows "birthdays_loop today (r # rs) bpw =
           (case bucket_append (bucket_of r) (fvalue (name r)) bpw of
              Inl e \<Rightarrow> Inl e
            | Inr bpw' \<Rightarrow> birthdays_loop today rs bpw')"
proof -
  from assms obtain b d where b: "birthday r = Some b" and d: "strptime (fvalue b) = Inr d"
    and w: "0 \<le> d - today" "d - today < 7"
    by (auto simp: in_week_def split: option.splits sum.splits)
  from strptime_range [OF d]
  have add: "date_add_days today (date_sub_days d today) = Inr d"
    by (simp add: date_add_days_def date_sub_days_def)
  show ?thesis
  proof (cases "weekday d = 5 \<or> weekday d = 6")
    case True
    with b d w add show ?thesis
      by (simp add: bucket_of_def date_sub_days_def Let_def strftime_A_weekend
            del: set_simps list.set)
  next
    case False
    have nw: "\<not> strftime_A d \<in> set [''Saturday'', ''Sunday'']"
      using False strftime_A_weekend [of d] by blast
    have loop: "birthdays_loop today (r # rs) bpw =
           (case bucket_append (strftime_A d) (fvalue (name r)) bpw of
              Inl e \<Rightarrow> Inl e
            | Inr bpw' \<Rightarrow> birthdays_loop today rs bpw')"
      using b d w add nw by (simp add: date_sub_days_def Let_def del: set_simps list.set)
    have "bucket_of r = strftime_A d"
      using b d False strftime_A_workday [OF False] by (simp add: bucket_of_def)
    with loop show ?thesis by simp
  qed
qed


lemma bucket_of_label: "in_week today r \<Longrightarrow> bucket_of r \<in> set bucket_labels"
proof -
  assume "in_week today r"
  then obtain b d where b: "birthday r = Some b" and d: "strptime (fvalue b) = Inr d"
    by (auto simp: in_week_def split: option.splits sum.splits)
  from weekday_cases [of d] b d show ?thesis
    by (auto simp: bucket_of_def bucket_labels_def)
qed


lemma bucket_append_Monday:
  "bucket_append ''Monday'' n
           [(''Monday'', a0), (''Tuesday'', a1), (''Wednesday'', a2), (''Thursday'', a3),
            (''Friday'', a4), (''Next Monday'', a5)]
         = Inr [(''Monday'', a0 @ [n]), (''Tuesday'', a1), (''Wednesday'', a2),
                (''Thursday'', a3), (''Friday'', a4), (''Next Monday'', a5)]"
  by (simp add: bucket_append_def)

lemma bucket_append_Friday:
  "bucket_append ''Friday'' n
           [(''Monday'', a0), (''Tuesday'', a1), (''Wednesday'', a2), (''Thursday'', a3),
            (''Friday'', a4), (''Next Monday'', a5)]
         = Inr [(''Monday'', a0), (''Tuesday'', a1), (''Wednesday'', a2),
                (''Thursday'', a3), (''Friday'', a4 @ [n]), (''Next Monday'', a5)]"
  by (simp add: bucket_append_def)


lemma bucket_append_Tuesday:
  "bucket_append ''Tuesday'' n
           [(''Monday'', a0), (''Tuesday'', a1), (''Wednesday'', a2), (''Thursday'', a3),
            (''Friday'', a4), (''Next Monday'', a5)]
         = Inr [(''Monday'', a0), (''Tuesday'', a1 @ [n]), (''Wednesday'', a2), (''Thursday'', a3), (''Friday'', a4), (''Next Monday'', a5)]"
  by (simp add: bucket_append_def)

lemma bucket_append_Wednesday:
  "bucket_append ''Wednesday'' n
           [(''Monday'', a0), (''Tuesday'', a1), (''Wednesday'', a2), (''Thursday'', a3),
            (''Friday'', a4), (''Next Monday'', a5)]
         = Inr [(''Monday'', a0), (''Tuesday'', a1), (''Wednesday'', a2 @ [n]), (''Thursday'', a3), (''Friday'', a4), (''Next Monday'', a5)]"
  by (simp add: bucket_append_def)

lemma bucket_append_Thursday:
  "bucket_append ''Thursday'' n
           [(''Monday'', a0), (''Tuesday'', a1), (''Wednesday'', a2), (''Thursday'', a3),
            (''Friday'', a4), (''Next Monday'', a5)]
         = Inr [(''Monday'', a0), (''Tuesday'', a1), (''Wednesday'', a2), (''Thursday'', a3 @ [n]), (''Friday'', a4), (''Next Monday'', a5)]"
  by (simp add: bucket_append_def)

lemma bucket_append_Next_Monday:
  "bucket_append ''Next Monday'' n
           [(''Monday'', a0), (''Tuesday'', a1), (''Wednesday'', a2), (''Thursday'', a3),
            (''Friday'', a4), (''Next Monday'', a5)]
         = Inr [(''Monday'', a0), (''Tuesday'', a1), (''Wednesday'', a2), (''Thursday'', a3), (''Friday'', a4), (''Next Monday'', a5 @ [n])]"
  by (simp add: bucket_append_def)

lemma bucket_append_six:
  assumes "l \<in> set bucket_labels"
  shows "bucket_append l n
           [(''Monday'', a0), (''Tuesday'', a1), (''Wednesday'', a2), (''Thursday'', a3),
            (''Friday'', a4), (''Next Monday'', a5)]
         = Inr [(''Monday'', a0 @ (if l = ''Monday'' then [n] else [])),
                (''Tuesday'', a1 @ (if l = ''Tuesday'' then [n] else [])),
                (''Wednesday'', a2 @ (if l = ''Wednesday'' then [n] else [])),
                (''Thursday'', a3 @ (if l = ''Thursday'' then [n] else [])),
                (''Friday'', a4 @ (if l = ''Friday'' then [n] else [])),
                (''Next Monday'', a5 @ (if l = ''Next Monday'' then [n] else []))]"
proof -
  from assms have "l = ''Monday'' \<or> l = ''Tuesday'' \<or> l = ''Wednesday'' \<or> l = ''Thursday''
      \<or> l = ''Friday'' \<or> l = ''Next Monday''"
    by (simp add: bucket_labels_def)
  then show ?thesis
  proof (elim disjE)
    assume l: "l = ''Monday''"
    show ?thesis unfolding l by (simp add: bucket_append_Monday)
  next
    assume l: "l = ''Tuesday''"
    show ?thesis unfolding l by (simp add: bucket_append_Tuesday)
  next
    assume l: "l = ''Wednesday''"
    show ?thesis unfolding l by (simp add: bucket_append_Wednesday)
  next
    assume l: "l = ''Thursday''"
    show ?thesis unfolding l by (simp add: bucket_append_Thursday)
  next
    assume l: "l = ''Friday''"
    show ?thesis unfolding l by (simp add: bucket_append_Friday)
  next
    assume l: "l = ''Next Monday''"
    show ?thesis unfolding l by (simp add: bucket_append_Next_Monday)
  qed
qed

lemma week_bucket_Nil: "week_bucket today [] l = []"
  by (simp add: week_bucket_def)

lemma week_bucket_Cons:
  "week_bucket today (r # rs) l =
     (if in_week today r \<and> bucket_of r = l then [fvalue (name r)] else [])
       @ week_bucket today rs l"
  by (simp add: week_bucket_def)

lemma birthdays_loop_buckets:
  assumes "\<forall>r \<in> set rs. \<forall>b. birthday r = Some b \<longrightarrow> (\<exists>d. strptime (fvalue b) = Inr d)"
  shows "birthdays_loop today rs
           [(''Monday'', a0), (''Tuesday'', a1), (''Wednesday'', a2), (''Thursday'', a3),
            (''Friday'', a4), (''Next Monday'', a5)]
         = Inr [(''Monday'', a0 @ week_bucket today rs ''Monday''),
                (''Tuesday'', a1 @ week_bucket today rs ''Tuesday''),
                (''Wednesday'', a2 @ week_bucket today rs ''Wednesday''),
                (''Thursday'', a3 @ week_bucket today rs ''Thursday''),
                (''Friday'', a4 @ week_bucket today rs ''Friday''),
                (''Next Monday'', a5 @ week_bucket today rs ''Next Monday'')]"
  using assms
proof (induction rs arbitrary: a0 a1 a2 a3 a4 a5)
  case Nil
  show ?case by (simp add: week_bucket_Nil)
next
  case (Cons r rs)
  from Cons.prems
  have here: "\<forall>b. birthday r = Some b \<longrightarrow> (\<exists>d. strptime (fvalue b) = Inr d)"
    and rest: "\<forall>r \<in> set rs. \<forall>b. birthday r = Some b \<longrightarrow> (\<exists>d. strptime (fvalue b) = Inr d)"
    by simp_all
  show ?case
  proof (cases "in_week today r")
    case False
    with here show ?thesis
      by (simp add: birthdays_loop_skip Cons.IH [OF rest] week_bucket_Cons
            del: birthdays_loop.simps)
  next
    case True
    show ?thesis
      unfolding birthdays_loop_take [OF True] bucket_append_six [OF bucket_of_label [OF True]]
      using True by (simp add: Cons.IH [OF rest] week_bucket_Cons del: birthdays_loop.simps)
  qed
qed

lemma birthdays_valid_parses:
  assumes "birthdays_valid book"
  shows "\<forall>r \<in> set (dict_values book). \<forall>b. birthday r = Some b
           \<longrightarrow> (\<exists>d. strptime (fvalue b) = Inr d)"
proof (intro ballI allI impI)
  fix r b
  assume r: "r \<in> set (dict_values book)" and b: "birthday r = Some b"
  from r obtain k where "(k, r) \<in> set book"
    by (auto simp: dict_values_def)
  with assms b have "Birthday (fvalue b) = Inr b"
    by (auto simp: birthdays_valid_def list_all_iff)
  then show "\<exists>d. strptime (fvalue b) = Inr d"
    by (auto simp: Birthday_def split: sum.splits exn.splits)
qed

lemma names_inj:
  assumes "keyed_by_name book" and "distinct (map fst book)"
  shows "inj_on (\<lambda>r. fvalue (name r)) (set (dict_values book))"
proof -
  have "map (\<lambda>r. fvalue (name r)) (dict_values book) = map fst book"
    using assms(1) by (auto simp: dict_values_def keyed_by_name_iff)
  with assms(2) have "distinct (map (\<lambda>r. fvalue (name r)) (dict_values book))"
    by simp
  then show ?thesis by (simp add: distinct_map)
qed

text \<open>
  C1: for every date \<open>today\<close> and every book (a dict whose records are stored under
  their names and whose birthdays were constructed by \<open>Birthday\<close>),
  \<open>get_birthdays_per_week\<close> returns the six buckets in the order Monday, Tuesday,
  Wednesday, Thursday, Friday, Next Monday, each holding in book order the names of the
  records of that bucket; so the name of a record is in a bucket exactly when the record
  has a birthday whose stored date \<open>d\<close> satisfies \<open>0 \<le> d - today < 7\<close> and the bucket
  is "Next Monday" for a Saturday or Sunday and the weekday of \<open>d\<close> otherwise.
\<close>

theorem birthdays_per_week_buckets:
  assumes "birthdays_valid book" and "keyed_by_name book" and "distinct (map fst book)"
  shows "get_birthdays_per_week today book
           = Inr [(''Monday'', week_bucket today (dict_values book) ''Monday''),
                  (''Tuesday'', week_bucket today (dict_values book) ''Tuesday''),
                  (''Wednesday'', week_bucket today (dict_values book) ''Wednesday''),
                  (''Thursday'', week_bucket today (dict_values book) ''Thursday''),
                  (''Friday'', week_bucket today (dict_values book) ''Friday''),
                  (''Next Monday'', week_bucket today (dict_values book) ''Next Monday'')]
       \<and> (\<forall>r \<in> set (dict_values book). \<forall>l.
             fvalue (name r) \<in> set (week_bucket today (dict_values book) l)
               \<longleftrightarrow> in_week today r \<and> bucket_of r = l)
       \<and> (\<forall>r \<in> set (dict_values book). in_week today r \<longrightarrow> bucket_of r \<in> set bucket_labels)"
proof -
  have a: "get_birthdays_per_week today book
           = Inr [(''Monday'', week_bucket today (dict_values book) ''Monday''),
                  (''Tuesday'', week_bucket today (dict_values book) ''Tuesday''),
                  (''Wednesday'', week_bucket today (dict_values book) ''Wednesday''),
                  (''Thursday'', week_bucket today (dict_values book) ''Thursday''),
                  (''Friday'', week_bucket today (dict_values book) ''Friday''),
                  (''Next Monday'', week_bucket today (dict_values book) ''Next Monday'')]"
    unfolding get_birthdays_per_week_def
    using birthdays_loop_buckets [OF birthdays_valid_parses [OF assms(1)],
        of today "[]" "[]" "[]" "[]" "[]" "[]"]
    by simp
  have b: "\<forall>r \<in> set (dict_values book). \<forall>l.
             fvalue (name r) \<in> set (week_bucket today (dict_values book) l)
               \<longleftrightarrow> in_week today r \<and> bucket_of r = l"
  proof (intro ballI allI)
    fix r l
    assume r: "r \<in> set (dict_values book)"
    show "fvalue (name r) \<in> set (week_bucket today (dict_values book) l)
               \<longleftrightarrow> in_week today r \<and> bucket_of r = l"
    proof
      assume "fvalue (name r) \<in> set (week_bucket today (dict_values book) l)"
      then obtain r' where r': "r' \<in> set (dict_values book)"
        and w: "in_week today r' \<and> bucket_of r' = l"
        and n: "fvalue (name r') = fvalue (name r)"
        by (auto simp: week_bucket_def)
      from names_inj [OF assms(2,3)] r r' n have "r' = r"
        by (auto dest: inj_onD)
      with w show "in_week today r \<and> bucket_of r = l" by simp
    next
      assume "in_week today r \<and> bucket_of r = l"
      with r show "fvalue (name r) \<in> set (week_bucket today (dict_values book) l)"
        by (auto simp: week_bucket_def)
    qed
  qed
  have c: "\<forall>r \<in> set (dict_values book). in_week today r \<longrightarrow> bucket_of r \<in> set bucket_labels"
    by (blast intro: bucket_of_label)
  from a b c show ?thesis by blast
qed


theorem birthdays_per_week_buckets_witness:
  "birthdays_valid
     [(''Ann'', \<lparr>name = \<lparr>fvalue = ''Ann''\<rparr>, phones = [],
                 birthday = Some \<lparr>fvalue = ''05.11.2026''\<rparr>\<rparr>),
      (''Bob'', \<lparr>name = \<lparr>fvalue = ''Bob''\<rparr>, phones = [],
                 birthday = Some \<lparr>fvalue = ''07.11.2026''\<rparr>\<rparr>),
      (''Cid'', \<lparr>name = \<lparr>fvalue = ''Cid''\<rparr>, phones = [],
                 birthday = Some \<lparr>fvalue = ''04.11.1990''\<rparr>\<rparr>),
      (''Dan'', \<lparr>name = \<lparr>fvalue = ''Dan''\<rparr>, phones = [], birthday = None\<rparr>)]
   \<and> keyed_by_name
     [(''Ann'', \<lparr>name = \<lparr>fvalue = ''Ann''\<rparr>, phones = [],
                 birthday = Some \<lparr>fvalue = ''05.11.2026''\<rparr>\<rparr>),
      (''Bob'', \<lparr>name = \<lparr>fvalue = ''Bob''\<rparr>, phones = [],
                 birthday = Some \<lparr>fvalue = ''07.11.2026''\<rparr>\<rparr>),
      (''Cid'', \<lparr>name = \<lparr>fvalue = ''Cid''\<rparr>, phones = [],
                 birthday = Some \<lparr>fvalue = ''04.11.1990''\<rparr>\<rparr>),
      (''Dan'', \<lparr>name = \<lparr>fvalue = ''Dan''\<rparr>, phones = [], birthday = None\<rparr>)]
   \<and> strptime ''04.11.2026'' = Inr 739924
   \<and> get_birthdays_per_week 739924
     [(''Ann'', \<lparr>name = \<lparr>fvalue = ''Ann''\<rparr>, phones = [],
                 birthday = Some \<lparr>fvalue = ''05.11.2026''\<rparr>\<rparr>),
      (''Bob'', \<lparr>name = \<lparr>fvalue = ''Bob''\<rparr>, phones = [],
                 birthday = Some \<lparr>fvalue = ''07.11.2026''\<rparr>\<rparr>),
      (''Cid'', \<lparr>name = \<lparr>fvalue = ''Cid''\<rparr>, phones = [],
                 birthday = Some \<lparr>fvalue = ''04.11.1990''\<rparr>\<rparr>),
      (''Dan'', \<lparr>name = \<lparr>fvalue = ''Dan''\<rparr>, phones = [], birthday = None\<rparr>)]
     = Inr [(''Monday'', []), (''Tuesday'', []), (''Wednesday'', []), (''Thursday'', [''Ann'']),
            (''Friday'', []), (''Next Monday'', [''Bob''])]"
proof -
  let ?book = "[(''Ann'', \<lparr>name = \<lparr>fvalue = ''Ann''\<rparr>, phones = [],
                 birthday = Some \<lparr>fvalue = ''05.11.2026''\<rparr>\<rparr>),
      (''Bob'', \<lparr>name = \<lparr>fvalue = ''Bob''\<rparr>, phones = [],
                 birthday = Some \<lparr>fvalue = ''07.11.2026''\<rparr>\<rparr>),
      (''Cid'', \<lparr>name = \<lparr>fvalue = ''Cid''\<rparr>, phones = [],
                 birthday = Some \<lparr>fvalue = ''04.11.1990''\<rparr>\<rparr>),
      (''Dan'', \<lparr>name = \<lparr>fvalue = ''Dan''\<rparr>, phones = [], birthday = None\<rparr>)]"
  have v: "birthdays_valid ?book" by code_simp
  have k: "keyed_by_name ?book" by code_simp
  have d: "distinct (map fst ?book)" by simp
  have t: "strptime ''04.11.2026'' = Inr 739924" by code_simp
  have w: "week_bucket 739924 (dict_values ?book) ''Monday'' = []"
    "week_bucket 739924 (dict_values ?book) ''Tuesday'' = []"
    "week_bucket 739924 (dict_values ?book) ''Wednesday'' = []"
    "week_bucket 739924 (dict_values ?book) ''Thursday'' = [''Ann'']"
    "week_bucket 739924 (dict_values ?book) ''Friday'' = []"
    "week_bucket 739924 (dict_values ?book) ''Next Monday'' = [''Bob'']"
    by code_simp+
  from birthdays_per_week_buckets [OF v k d, of 739924]
  have "get_birthdays_per_week 739924 ?book
     = Inr [(''Monday'', []), (''Tuesday'', []), (''Wednesday'', []), (''Thursday'', [''Ann'']),
            (''Friday'', []), (''Next Monday'', [''Bob''])]"
    unfolding w by blast
  with v k t show ?thesis by blast
qed

section \<open>Birthday and strptime\<close>

lemma rmatch_lang: "set (rmatch p s) = {r. \<exists>w \<in> lang p. s = w @ r}"
proof (induction p arbitrary: s)
  case (Cls cs)
  show ?case by (cases s) auto
next
  case (Seq p q)
  show ?case
  proof (intro set_eqI iffI)
    fix r assume "r \<in> set (rmatch (Seq p q) s)"
    then obtain r1 where "r1 \<in> set (rmatch p s)" and "r \<in> set (rmatch q r1)"
      by auto
    then obtain a b where "a \<in> lang p" "s = a @ r1" "b \<in> lang q" "r1 = b @ r"
      unfolding Seq.IH by blast
    then have "a @ b \<in> lang (Seq p q)" and "s = (a @ b) @ r" by auto
    then show "r \<in> {r. \<exists>w \<in> lang (Seq p q). s = w @ r}" by blast
  next
    fix r assume "r \<in> {r. \<exists>w \<in> lang (Seq p q). s = w @ r}"
    then obtain a b where a: "a \<in> lang p" and b: "b \<in> lang q" and s: "s = (a @ b) @ r"
      by auto
    from a s have "b @ r \<in> set (rmatch p s)" unfolding Seq.IH by auto
    moreover from b have "r \<in> set (rmatch q (b @ r))" unfolding Seq.IH by auto
    ultimately show "r \<in> set (rmatch (Seq p q) s)" by auto
  qed
next
  case (Alt p q)
  show ?case by (auto simp: Alt.IH)
qed

lemma group_match_iff:
  "(w, r) \<in> set (group_match p s) \<longleftrightarrow> w \<in> lang p \<and> s = w @ r"
proof
  assume "(w, r) \<in> set (group_match p s)"
  then have r: "r \<in> set (rmatch p s)" and w: "w = take (length s - length r) s"
    by (auto simp: group_match_def)
  from r obtain w' where w': "w' \<in> lang p" "s = w' @ r"
    unfolding rmatch_lang by blast
  with w have "w = w'" by simp
  with w' show "w \<in> lang p \<and> s = w @ r" by simp
next
  assume a: "w \<in> lang p \<and> s = w @ r"
  then have "r \<in> set (rmatch p s)"
    unfolding rmatch_lang by blast
  moreover from a have "w = take (length s - length r) s" by simp
  ultimately show "(w, r) \<in> set (group_match p s)"
    unfolding group_match_def by (simp add: image_iff)
qed

lemma rmatch_dot: "r2 \<in> set (rmatch (Cls ''.'') r1) \<longleftrightarrow> r1 = CHR ''.'' # r2"
  by (cases r1) auto



lemma format_match_mem:
  "(d, m, y, r5) \<in> set (format_match s) \<longleftrightarrow>
     (\<exists>r1 r2 r3 r4.
        (d, r1) \<in> set (group_match re_d s) \<and> r2 \<in> set (rmatch (Cls ''.'') r1)
        \<and> (m, r3) \<in> set (group_match re_m r2) \<and> r4 \<in> set (rmatch (Cls ''.'') r3)
        \<and> (y, r5) \<in> set (group_match re_Y r4))"
  unfolding format_match_def
  by (simp del: rmatch.simps) blast

lemma format_match_iff:
  "(d, m, y, r) \<in> set (format_match s) \<longleftrightarrow>
     d \<in> lang re_d \<and> m \<in> lang re_m \<and> y \<in> lang re_Y \<and> s = d @ ''.'' @ m @ ''.'' @ y @ r"
  unfolding format_match_mem group_match_iff rmatch_dot by simp blast



lemma lang_chars: "w \<in> lang p \<Longrightarrow> set w \<subseteq> chars p"
proof (induction p arbitrary: w)
  case (Cls cs)
  then show ?case by auto
next
  case (Seq p q)
  from Seq.prems obtain a b where "a \<in> lang p" "b \<in> lang q" "w = a @ b" by auto
  with Seq.IH [of a] Seq.IH(2) [of b] show ?case by auto
next
  case (Alt p q)
  from Alt.prems Alt.IH [of w] Alt.IH(2) [of w] show ?case by auto
qed

lemma no_dot_re_d: "D \<in> lang re_d \<Longrightarrow> CHR ''.'' \<notin> set D"
proof -
  assume "D \<in> lang re_d"
  then have "set D \<subseteq> chars re_d" by (rule lang_chars)
  moreover have "CHR ''.'' \<notin> chars re_d" by (simp add: re_d_def re_digit_def)
  ultimately show ?thesis by blast
qed

lemma no_dot_re_m: "M \<in> lang re_m \<Longrightarrow> CHR ''.'' \<notin> set M"
proof -
  assume "M \<in> lang re_m"
  then have "set M \<subseteq> chars re_m" by (rule lang_chars)
  moreover have "CHR ''.'' \<notin> chars re_m" by (simp add: re_m_def)
  ultimately show ?thesis by blast
qed

lemma lang_Cls1: "w \<in> lang (Cls A) \<longleftrightarrow> (\<exists>a. a \<in> set A \<and> w = [a])"
  by auto

lemma lang_Cls2:
  "w \<in> lang (Seq (Cls A) (Cls B)) \<longleftrightarrow> (\<exists>a b. a \<in> set A \<and> b \<in> set B \<and> w = [a, b])"
proof
  assume "w \<in> lang (Seq (Cls A) (Cls B))"
  then show "\<exists>a b. a \<in> set A \<and> b \<in> set B \<and> w = [a, b]" by auto
next
  assume "\<exists>a b. a \<in> set A \<and> b \<in> set B \<and> w = [a, b]"
  then obtain a b where ab: "a \<in> set A" "b \<in> set B" and w: "w = [a, b]" by blast
  from ab have "[a] @ [b] \<in> lang (Seq (Cls A) (Cls B))"
    unfolding lang.simps by blast
  with w show "w \<in> lang (Seq (Cls A) (Cls B))" by simp
qed

lemma lang_Cls4:
  "w \<in> lang (Seq (Cls A) (Seq (Cls A) (Seq (Cls A) (Cls A))))
     \<longleftrightarrow> length w = 4 \<and> set w \<subseteq> set A"
proof
  assume "w \<in> lang (Seq (Cls A) (Seq (Cls A) (Seq (Cls A) (Cls A))))"
  then show "length w = 4 \<and> set w \<subseteq> set A" by auto
next
  assume a: "length w = 4 \<and> set w \<subseteq> set A"
  then obtain a b c d where w: "w = [a, b, c, d]"
    by (auto simp: length_Suc_conv numeral_eq_Suc)
  with a have "a \<in> set A" "b \<in> set A" "c \<in> set A" "d \<in> set A" by simp_all
  then have "[a] @ [b] @ [c] @ [d] \<in> lang (Seq (Cls A) (Seq (Cls A) (Seq (Cls A) (Cls A))))"
    unfolding lang.simps by blast
  with w show "w \<in> lang (Seq (Cls A) (Seq (Cls A) (Seq (Cls A) (Cls A))))" by simp
qed

lemma lang_re_Y: "Y \<in> lang re_Y \<longleftrightarrow> year_text Y"
  unfolding re_Y_def re_digit_def lang_Cls4 year_text_def decimal_digits_def list_all_iff
  by blast

lemma append_sep_unique:
  "a @ c # x = b @ c # y \<Longrightarrow> c \<notin> set a \<Longrightarrow> c \<notin> set b \<Longrightarrow> a = b \<and> x = y"
proof (induction a arbitrary: b)
  case Nil
  then show ?case by (cases b) auto
next
  case (Cons h a)
  then show ?case by (cases b) auto
qed


lemma char_class:
  "c \<in> set ''0123456789'' \<longleftrightarrow> 48 \<le> (of_char c :: nat) \<and> (of_char c :: nat) \<le> 57"
  "c \<in> set ''123456789'' \<longleftrightarrow> 49 \<le> (of_char c :: nat) \<and> (of_char c :: nat) \<le> 57"
  "c \<in> set ''01'' \<longleftrightarrow> 48 \<le> (of_char c :: nat) \<and> (of_char c :: nat) \<le> 49"
  "c \<in> set ''12'' \<longleftrightarrow> 49 \<le> (of_char c :: nat) \<and> (of_char c :: nat) \<le> 50"
  "c \<in> set ''012'' \<longleftrightarrow> 48 \<le> (of_char c :: nat) \<and> (of_char c :: nat) \<le> 50"
  "c \<in> set ''0'' \<longleftrightarrow> (of_char c :: nat) = 48"
  "c \<in> set ''1'' \<longleftrightarrow> (of_char c :: nat) = 49"
  "c \<in> set ''3'' \<longleftrightarrow> (of_char c :: nat) = 51"
  "c \<in> set '' '' \<longleftrightarrow> (of_char c :: nat) = 32"
  "c = CHR '' '' \<longleftrightarrow> (of_char c :: nat) = 32"
  by (cases c, simp)+

lemma re_d_forms:
  "D \<in> lang re_d \<longleftrightarrow>
     (\<exists>a b. a \<in> set ''3'' \<and> b \<in> set ''01'' \<and> D = [a, b])
     \<or> (\<exists>a b. a \<in> set ''12'' \<and> b \<in> set ''0123456789'' \<and> D = [a, b])
     \<or> (\<exists>a b. a \<in> set ''0'' \<and> b \<in> set ''123456789'' \<and> D = [a, b])
     \<or> (\<exists>a. a \<in> set ''123456789'' \<and> D = [a])
     \<or> (\<exists>a b. a \<in> set '' '' \<and> b \<in> set ''123456789'' \<and> D = [a, b])"
  by (simp only: re_d_def re_digit_def lang.simps(3) Un_iff lang_Cls2 lang_Cls1)

lemma re_m_forms:
  "M \<in> lang re_m \<longleftrightarrow>
     (\<exists>a b. a \<in> set ''1'' \<and> b \<in> set ''012'' \<and> M = [a, b])
     \<or> (\<exists>a b. a \<in> set ''0'' \<and> b \<in> set ''123456789'' \<and> M = [a, b])
     \<or> (\<exists>a. a \<in> set ''123456789'' \<and> M = [a])"
  by (simp only: re_m_def lang.simps(3) Un_iff lang_Cls2 lang_Cls1)


lemma py_int_one: "py_int [a] = (if of_char a = (32::nat) then 0 else int (of_char a) - 48)"
  by (simp add: py_int_def char_class(10))

lemma py_int_two:
  "py_int [a, b] =
     (if of_char a = (32::nat)
      then (if of_char b = (32::nat) then 0 else int (of_char b) - 48)
      else 10 * (int (of_char a) - 48) + (int (of_char b) - 48))"
  by (simp add: py_int_def char_class(10))

lemma day_text_one: "day_text [a] \<longleftrightarrow> 48 \<le> (of_char a :: nat) \<and> (of_char a :: nat) \<le> 57"
  by (simp add: day_text_def decimal_digits_def char_class del: list.set)

lemma day_text_two:
  "day_text [a, b] \<longleftrightarrow>
     (48 \<le> (of_char a :: nat) \<and> (of_char a :: nat) \<le> 57 \<or> (of_char a :: nat) = 32)
     \<and> 48 \<le> (of_char b :: nat) \<and> (of_char b :: nat) \<le> 57"
  by (auto simp add: day_text_def decimal_digits_def char_class simp del: list.set)

lemma day_text_length: "day_text D \<Longrightarrow> length D = 1 \<or> length D = 2"
  by (auto simp: day_text_def)

lemma month_text_one: "month_text [a] \<longleftrightarrow> 48 \<le> (of_char a :: nat) \<and> (of_char a :: nat) \<le> 57"
  by (simp add: month_text_def decimal_digits_def char_class del: list.set)

lemma month_text_two:
  "month_text [a, b] \<longleftrightarrow>
     48 \<le> (of_char a :: nat) \<and> (of_char a :: nat) \<le> 57
     \<and> 48 \<le> (of_char b :: nat) \<and> (of_char b :: nat) \<le> 57"
  by (auto simp add: month_text_def decimal_digits_def char_class simp del: list.set)

lemma month_text_length: "month_text M \<Longrightarrow> length M = 1 \<or> length M = 2"
  by (auto simp: month_text_def)

lemma lang_re_d_length: "D \<in> lang re_d \<Longrightarrow> length D = 1 \<or> length D = 2"
  unfolding re_d_forms by auto

lemma lang_re_m_length: "M \<in> lang re_m \<Longrightarrow> length M = 1 \<or> length M = 2"
  unfolding re_m_forms by auto

lemma lang_re_d_one:
  "[a] \<in> lang re_d \<longleftrightarrow> day_text [a] \<and> 1 \<le> py_int [a] \<and> py_int [a] \<le> 31"
  unfolding re_d_forms day_text_one py_int_one
  by (simp add: char_class del: list.set) arith

lemma lang_re_d_two:
  "[a, b] \<in> lang re_d \<longleftrightarrow> day_text [a, b] \<and> 1 \<le> py_int [a, b] \<and> py_int [a, b] \<le> 31"
  unfolding re_d_forms day_text_two py_int_two
  by (simp add: char_class del: list.set) arith

lemma lang_re_m_one:
  "[a] \<in> lang re_m \<longleftrightarrow> month_text [a] \<and> 1 \<le> py_int [a] \<and> py_int [a] \<le> 12"
  unfolding re_m_forms month_text_one py_int_one
  by (simp add: char_class del: list.set) arith

lemma lang_re_m_two:
  "[a, b] \<in> lang re_m \<longleftrightarrow> month_text [a, b] \<and> 1 \<le> py_int [a, b] \<and> py_int [a, b] \<le> 12"
  unfolding re_m_forms month_text_two py_int_two
  by (simp add: char_class del: list.set) arith


lemma length_one_or_two:
  "length D = 1 \<or> length D = 2 \<Longrightarrow> (\<exists>a. D = [a]) \<or> (\<exists>a b. D = [a, b])"
  by (auto simp: length_Suc_conv numeral_eq_Suc)

lemma lang_re_d_iff:
  "D \<in> lang re_d \<longleftrightarrow> day_text D \<and> 1 \<le> py_int D \<and> py_int D \<le> 31"
proof (cases "length D = 1 \<or> length D = 2")
  case True
  from length_one_or_two [OF True] show ?thesis
    using lang_re_d_one lang_re_d_two by blast
next
  case False
  then show ?thesis
    using lang_re_d_length [of D] day_text_length [of D] by blast
qed

lemma lang_re_m_iff:
  "M \<in> lang re_m \<longleftrightarrow> month_text M \<and> 1 \<le> py_int M \<and> py_int M \<le> 12"
proof (cases "length M = 1 \<or> length M = 2")
  case True
  from length_one_or_two [OF True] show ?thesis
    using lang_re_m_one lang_re_m_two by blast
next
  case False
  then show ?thesis
    using lang_re_m_length [of M] month_text_length [of M] by blast
qed

lemma mk_date_iff: "(\<exists>x. mk_date y m d = Inr x) \<longleftrightarrow> valid_date y m d"
  by (auto simp: mk_date_def valid_date_def)

lemma mk_date_fails: "\<not> valid_date y m d \<Longrightarrow> mk_date y m d = Inl ValueError"
  by (auto simp: mk_date_def valid_date_def)

lemma days_in_month_le: "days_in_month y m \<le> 31"
  by (simp add: days_in_month_def)

lemma valid_date_ranges:
  "valid_date y m d \<Longrightarrow> 1 \<le> d \<and> d \<le> 31 \<and> 1 \<le> m \<and> m \<le> 12"
  using days_in_month_le [of y m] by (simp add: valid_date_def)

lemma format_match_unique:
  assumes "(d, m, y, r) \<in> set (format_match s)" and "(d', m', y', r') \<in> set (format_match s)"
  shows "d' = d \<and> m' = m \<and> y' = y \<and> r' = r"
proof -
  from assms(1) have l: "d \<in> lang re_d" "m \<in> lang re_m" "y \<in> lang re_Y"
    and s: "s = d @ CHR ''.'' # (m @ CHR ''.'' # (y @ r))"
    by (simp_all add: format_match_iff)
  from assms(2) have l': "d' \<in> lang re_d" "m' \<in> lang re_m" "y' \<in> lang re_Y"
    and s': "s = d' @ CHR ''.'' # (m' @ CHR ''.'' # (y' @ r'))"
    by (simp_all add: format_match_iff)
  from s s' have "d @ CHR ''.'' # (m @ CHR ''.'' # (y @ r))
      = d' @ CHR ''.'' # (m' @ CHR ''.'' # (y' @ r'))" by simp
  from append_sep_unique [OF this no_dot_re_d [OF l(1)] no_dot_re_d [OF l'(1)]]
  have d: "d = d'" and e: "m @ CHR ''.'' # (y @ r) = m' @ CHR ''.'' # (y' @ r')" by simp_all
  from append_sep_unique [OF e no_dot_re_m [OF l(2)] no_dot_re_m [OF l'(2)]]
  have m: "m = m'" and f: "y @ r = y' @ r'" by simp_all
  from l(3) l'(3) have "length y = length y'"
    by (simp add: lang_re_Y year_text_def)
  with f have "y = y' \<and> r = r'" by simp
  with d m show ?thesis by simp
qed

lemma strptime_iff:
  "(\<exists>x. strptime s = Inr x) \<longleftrightarrow>
     (\<exists>D M Y. s = D @ ''.'' @ M @ ''.'' @ Y \<and> day_text D \<and> month_text M \<and> year_text Y
        \<and> valid_date (py_int Y) (py_int M) (py_int D))"
proof
  assume "\<exists>x. strptime s = Inr x"
  then obtain x where x: "strptime s = Inr x" ..
  then obtain d m y rest where fm: "format_match s = (d, m, y, []) # rest"
    and mk: "mk_date (py_int y) (py_int m) (py_int d) = Inr x"
    by (auto simp: strptime_def split: list.splits if_splits)
  from fm have "(d, m, y, []) \<in> set (format_match s)" by simp
  then have "d \<in> lang re_d" "m \<in> lang re_m" "y \<in> lang re_Y" "s = d @ ''.'' @ m @ ''.'' @ y"
    by (simp_all add: format_match_iff)
  moreover from mk have "valid_date (py_int y) (py_int m) (py_int d)"
    using mk_date_iff by blast
  ultimately show "\<exists>D M Y. s = D @ ''.'' @ M @ ''.'' @ Y \<and> day_text D \<and> month_text M
        \<and> year_text Y \<and> valid_date (py_int Y) (py_int M) (py_int D)"
    unfolding lang_re_d_iff lang_re_m_iff lang_re_Y by blast
next
  assume "\<exists>D M Y. s = D @ ''.'' @ M @ ''.'' @ Y \<and> day_text D \<and> month_text M \<and> year_text Y
        \<and> valid_date (py_int Y) (py_int M) (py_int D)"
  then obtain D M Y where s: "s = D @ ''.'' @ M @ ''.'' @ Y" and t: "day_text D" "month_text M"
    "year_text Y" and v: "valid_date (py_int Y) (py_int M) (py_int D)" by blast
  from t valid_date_ranges [OF v]
  have "D \<in> lang re_d" "M \<in> lang re_m" "Y \<in> lang re_Y"
    unfolding lang_re_d_iff lang_re_m_iff lang_re_Y by simp_all
  with s have mem: "(D, M, Y, []) \<in> set (format_match s)"
    by (simp add: format_match_iff)
  then obtain h rest where fm: "format_match s = h # rest"
    by (cases "format_match s") auto
  obtain d m y r where h: "h = (d, m, y, r)" by (cases h) auto
  from fm h have "(d, m, y, r) \<in> set (format_match s)" by simp
  from format_match_unique [OF mem this] have "d = D" "m = M" "y = Y" "r = []" by simp_all
  with fm h have "strptime s = mk_date (py_int Y) (py_int M) (py_int D)"
    by (simp add: strptime_def)
  with v show "\<exists>x. strptime s = Inr x"
    using mk_date_iff by simp
qed


lemma Birthday_strptime:
  "Birthday s = Inr f \<longleftrightarrow> (\<exists>x. strptime s = Inr x) \<and> f = \<lparr>fvalue = s\<rparr>"
  by (auto simp: Birthday_def split: sum.splits exn.splits)

lemma Birthday_fails:
  "(\<forall>f'. Birthday s \<noteq> Inr f') \<Longrightarrow> Birthday s = Inl ValueError"
  by (auto simp: Birthday_def split: sum.splits exn.splits dest: strptime_raises)

lemma decimal_digits_no_dot: "decimal_digits X \<Longrightarrow> CHR ''.'' \<notin> set X"
proof
  assume d: "decimal_digits X" and m: "CHR ''.'' \<in> set X"
  from d have "\<forall>c \<in> set X. c \<in> set ''0123456789''"
    unfolding decimal_digits_def list_all_iff .
  with m have "CHR ''.'' \<in> set ''0123456789''" by blast
  then show False by simp
qed

lemma day_text_no_dot: "day_text D \<Longrightarrow> CHR ''.'' \<notin> set D"
proof -
  assume d: "day_text D"
  then consider "decimal_digits D"
    | "length D = 2 \<and> hd D = CHR '' '' \<and> decimal_digits (tl D)"
    unfolding day_text_def by blast
  then show ?thesis
  proof cases
    case 1
    then show ?thesis by (rule decimal_digits_no_dot)
  next
    case 2
    then obtain a b where D: "D = [a, b]"
      by (auto simp: length_Suc_conv numeral_eq_Suc)
    with 2 have "a = CHR '' ''" and "decimal_digits [b]" by simp_all
    with D decimal_digits_no_dot [of "[b]"] show ?thesis by simp
  qed
qed

lemma month_text_no_dot: "month_text M \<Longrightarrow> CHR ''.'' \<notin> set M"
  unfolding month_text_def by (blast dest: decimal_digits_no_dot)


lemma strict_shape_split:
  assumes "strict_shape s"
  shows "s = take 2 s @ ''.'' @ take 2 (drop 3 s) @ ''.'' @ drop 6 s"
    and "day_text (take 2 s)" and "month_text (take 2 (drop 3 s))" and "year_text (drop 6 s)"
proof -
  from assms have len: "length s = 10" by (simp add: strict_shape_def)
  then obtain c0 c1 c2 c3 c4 c5 c6 c7 c8 c9 where s: "s = [c0, c1, c2, c3, c4, c5, c6, c7, c8, c9]"
    by (auto simp: length_Suc_conv numeral_eq_Suc)
  from assms s have dots: "c2 = CHR ''.''" "c5 = CHR ''.''"
    by (simp_all add: strict_shape_def)
  with s show "s = take 2 s @ ''.'' @ take 2 (drop 3 s) @ ''.'' @ drop 6 s" by simp
  from assms show "day_text (take 2 s)"
    by (simp add: strict_shape_def day_text_def)
  from assms show "month_text (take 2 (drop 3 s))"
    by (simp add: strict_shape_def month_text_def)
  from assms show "year_text (drop 6 s)"
    by (simp add: strict_shape_def year_text_def)
qed

lemma split_unique:
  assumes "D @ ''.'' @ M @ ''.'' @ Y = D' @ ''.'' @ M' @ ''.'' @ Y'"
    and "day_text D" "day_text D'" "month_text M" "month_text M'"
  shows "D = D' \<and> M = M' \<and> Y = Y'"
proof -
  from assms(1) have e: "D @ CHR ''.'' # (M @ CHR ''.'' # Y) = D' @ CHR ''.'' # (M' @ CHR ''.'' # Y')"
    by simp
  from append_sep_unique [OF e day_text_no_dot [OF assms(2)] day_text_no_dot [OF assms(3)]]
  have d: "D = D'" and f: "M @ CHR ''.'' # Y = M' @ CHR ''.'' # Y'" by simp_all
  from append_sep_unique [OF f month_text_no_dot [OF assms(4)] month_text_no_dot [OF assms(5)]] d
  show ?thesis by simp
qed

lemma strptime_strict:
  assumes "strict_shape s"
  shows "(\<exists>x. strptime s = Inr x) \<longleftrightarrow>
           valid_date (py_int (drop 6 s)) (py_int (take 2 (drop 3 s))) (py_int (take 2 s))"
proof
  assume "\<exists>x. strptime s = Inr x"
  then obtain D M Y where s: "s = D @ ''.'' @ M @ ''.'' @ Y" and t: "day_text D" "month_text M"
    and v: "valid_date (py_int Y) (py_int M) (py_int D)"
    unfolding strptime_iff by blast
  note sp = strict_shape_split [OF assms]
  note eq = trans [OF sp(1) [symmetric] s]
  from split_unique [OF eq sp(2) t(1) sp(3) t(2)] v
  show "valid_date (py_int (drop 6 s)) (py_int (take 2 (drop 3 s))) (py_int (take 2 s))"
    by simp
next
  assume "valid_date (py_int (drop 6 s)) (py_int (take 2 (drop 3 s))) (py_int (take 2 s))"
  with strict_shape_split [OF assms] show "\<exists>x. strptime s = Inr x"
    unfolding strptime_iff by blast
qed

text \<open>
  C4 on the code: \<open>Birthday("1.2.2020")\<close> and \<open>Birthday(" 1.2.2020")\<close> succeed, and the
  stored value is the string as given, although neither string has the shape two-digit
  day, \<open>.\<close>, two-digit month, \<open>.\<close>, four-digit year; the constructor's own message asks
  for "the format DD.MM.YYYY".
\<close>

theorem Birthday_accepts_unpadded:
  "Birthday ''1.2.2020'' = Inr \<lparr>fvalue = ''1.2.2020''\<rparr> \<and> \<not> strict_shape ''1.2.2020''
   \<and> Birthday '' 1.2.2020'' = Inr \<lparr>fvalue = '' 1.2.2020''\<rparr> \<and> \<not> strict_shape '' 1.2.2020''"
  by code_simp

theorem Birthday_accepts_unpadded_witness:
  "Birthday ''1.2.2020'' \<noteq> Inl ValueError \<and> Birthday '' 1.2.2020'' \<noteq> Inl ValueError"
  using Birthday_accepts_unpadded by simp

text \<open>
  What \<open>Birthday\<close> accepts among the modelled strings (code points below 256):
  \<open>Birthday s\<close> succeeds exactly when \<open>s\<close> is a day, \<open>.\<close>, a month, \<open>.\<close> and a year, the
  day written with one or two decimal digits or as a blank and one digit, the month with
  one or two decimal digits, the year with exactly four, and the three numbers are a
  calendar-valid date (years 1 to 9999). It fails with \<open>ValueError\<close> otherwise, the stored
  value renders unchanged, and on the strings of the zero-padded shape it succeeds
  exactly for the calendar-valid dates.
\<close>

theorem Birthday_accepts_iff:
  "(Birthday s = Inr f \<longleftrightarrow>
      (\<exists>D M Y. s = D @ ''.'' @ M @ ''.'' @ Y \<and> day_text D \<and> month_text M \<and> year_text Y
         \<and> valid_date (py_int Y) (py_int M) (py_int D))
      \<and> f = \<lparr>fvalue = s\<rparr>)
   \<and> (Birthday s = Inr f \<longrightarrow> str_Field f = s)
   \<and> ((\<forall>f'. Birthday s \<noteq> Inr f') \<longrightarrow> Birthday s = Inl ValueError)
   \<and> (strict_shape s \<longrightarrow>
        ((\<exists>f'. Birthday s = Inr f') \<longleftrightarrow>
           valid_date (py_int (drop 6 s)) (py_int (take 2 (drop 3 s))) (py_int (take 2 s))))"
proof -
  have a: "Birthday s = Inr f \<longleftrightarrow>
      (\<exists>D M Y. s = D @ ''.'' @ M @ ''.'' @ Y \<and> day_text D \<and> month_text M \<and> year_text Y
         \<and> valid_date (py_int Y) (py_int M) (py_int D))
      \<and> f = \<lparr>fvalue = s\<rparr>"
    unfolding Birthday_strptime strptime_iff ..
  have b: "Birthday s = Inr f \<longrightarrow> str_Field f = s"
    by (auto simp: Birthday_strptime str_Field_def)
  have c: "(\<forall>f'. Birthday s \<noteq> Inr f') \<longrightarrow> Birthday s = Inl ValueError"
    using Birthday_fails by blast
  have d: "strict_shape s \<longrightarrow>
        ((\<exists>f'. Birthday s = Inr f') \<longleftrightarrow>
           valid_date (py_int (drop 6 s)) (py_int (take 2 (drop 3 s))) (py_int (take 2 s)))"
    using strptime_strict [of s] by (auto simp: Birthday_strptime)
  from a b c d show ?thesis by blast
qed

theorem Birthday_accepts_iff_witness:
  "strict_shape ''29.02.2020''
   \<and> valid_date (py_int ''2020'') (py_int ''02'') (py_int ''29'')
   \<and> Birthday ''29.02.2020'' = Inr \<lparr>fvalue = ''29.02.2020''\<rparr>
   \<and> str_Field \<lparr>fvalue = ''29.02.2020''\<rparr> = ''29.02.2020''
   \<and> strict_shape ''29.02.2021''
   \<and> \<not> valid_date (py_int ''2021'') (py_int ''02'') (py_int ''29'')
   \<and> Birthday ''29.02.2021'' = Inl ValueError"
proof -
  have s0: "strict_shape ''29.02.2020''" and s1: "strict_shape ''29.02.2021''"
    by code_simp+
  have v0: "valid_date (py_int ''2020'') (py_int ''02'') (py_int ''29'')"
    and v1: "\<not> valid_date (py_int ''2021'') (py_int ''02'') (py_int ''29'')"
    by code_simp+
  have w0: "valid_date (py_int (drop 6 ''29.02.2020'')) (py_int (take 2 (drop 3 ''29.02.2020'')))
              (py_int (take 2 ''29.02.2020''))"
    and w1: "\<not> valid_date (py_int (drop 6 ''29.02.2021''))
              (py_int (take 2 (drop 3 ''29.02.2021''))) (py_int (take 2 ''29.02.2021''))"
    by code_simp+
  from Birthday_accepts_iff [of "''29.02.2020''"] s0 w0
  obtain f0 where f0: "Birthday ''29.02.2020'' = Inr f0" by blast
  with Birthday_accepts_iff [of "''29.02.2020''" f0] have "f0 = \<lparr>fvalue = ''29.02.2020''\<rparr>"
    by blast
  with f0 have b0: "Birthday ''29.02.2020'' = Inr \<lparr>fvalue = ''29.02.2020''\<rparr>" by simp
  with Birthday_accepts_iff [of "''29.02.2020''" "\<lparr>fvalue = ''29.02.2020''\<rparr>"]
  have r0: "str_Field \<lparr>fvalue = ''29.02.2020''\<rparr> = ''29.02.2020''" by blast
  from Birthday_accepts_iff [of "''29.02.2021''"] s1 w1
  have "\<forall>f'. Birthday ''29.02.2021'' \<noteq> Inr f'" by blast
  with Birthday_accepts_iff [of "''29.02.2021''"]
  have b1: "Birthday ''29.02.2021'' = Inl ValueError" by blast
  from s0 v0 b0 r0 s1 v1 b1 show ?thesis by blast
qed

end
